theory Spec2Isabelle
  imports Complex_Main "HOL-Library.AList"
begin

section \<open>Python strings\<close>

text \<open>
  A Python \<open>str\<close> is a sequence of Unicode code points, so it is modelled as a list of
  natural numbers (one per code point). \<open>lit\<close> embeds an ASCII literal of the source.
  Code point 10 is the newline \<open>\n\<close>, 13 is \<open>\r\<close>, 60 is \<open><\<close> and 62 is \<open>>\<close>.
\<close>

type_synonym str = "nat list"

definition lit :: "string \<Rightarrow> str" where
  "lit s = map of_char s"

text \<open>
  The characters that \<open>\s\<close> matches in a \<open>str\<close> pattern of \<open>re\<close>, and that \<open>str.strip()\<close>
  removes: U+0009..U+000D, U+001C..U+0020, U+0085, U+00A0, U+1680, U+2000..U+200A,
  U+2028, U+2029, U+202F, U+205F, U+3000.
\<close>

definition isspace :: "nat \<Rightarrow> bool" where
  "isspace c \<longleftrightarrow> (9 \<le> c \<and> c \<le> 13) \<or> (28 \<le> c \<and> c \<le> 32) \<or> c = 133 \<or> c = 160
     \<or> c = 5760 \<or> (8192 \<le> c \<and> c \<le> 8202) \<or> c = 8232 \<or> c = 8233 \<or> c = 8239
     \<or> c = 8287 \<or> c = 12288"

text \<open>
  The line boundaries of \<open>str.splitlines()\<close>: \<open>\n\<close>, \<open>\r\<close>, \<open>\v\<close>, \<open>\f\<close>, U+001C, U+001D,
  U+001E, U+0085, U+2028, U+2029 (and \<open>\r\n\<close>, which counts as one boundary).
\<close>

definition is_linebreak :: "nat \<Rightarrow> bool" where
  "is_linebreak c \<longleftrightarrow> (10 \<le> c \<and> c \<le> 13) \<or> (28 \<le> c \<and> c \<le> 30) \<or> c = 133
     \<or> c = 8232 \<or> c = 8233"

text \<open>
  \<open>s.splitlines()\<close>: the lines of \<open>s\<close> without their boundaries; a trailing boundary does
  not open a further, empty line. The first argument is the line read so far.
\<close>

fun splitlines_from :: "str \<Rightarrow> str \<Rightarrow> str list" where
  "splitlines_from cur [] = (if cur = [] then [] else [cur])"
| "splitlines_from cur [c] =
     (if is_linebreak c then [cur] else [cur @ [c]])"
| "splitlines_from cur (c # d # ds) =
     (if c = 13 \<and> d = 10 then cur # splitlines_from [] ds
      else if is_linebreak c then cur # splitlines_from [] (d # ds)
      else splitlines_from (cur @ [c]) (d # ds))"

definition splitlines :: "str \<Rightarrow> str list" where
  "splitlines s = splitlines_from [] s"

text \<open>\<open>s.strip()\<close>: leading and trailing whitespace removed.\<close>

definition strip :: "str \<Rightarrow> str" where
  "strip s = rev (dropWhile isspace (rev (dropWhile isspace s)))"

text \<open>\<open>sep.join(xs)\<close>.\<close>

fun join :: "str \<Rightarrow> str list \<Rightarrow> str" where
  "join sep [] = []"
| "join sep [x] = x"
| "join sep (x # y # ys) = x @ sep @ join sep (y # ys)"

section \<open>Text clean-up (components/processing.py)\<close>

text \<open>
  \<open>remove_empty_lines\<close> is \<open>re.sub(r"\n\s*\n", "\n", text_input)\<close>. The scan goes from
  left to right. A match can only start at a newline; \<open>\s*\<close> is greedy and newlines are
  whitespace, so it first takes the whole run of whitespace after that newline and then
  gives characters back until the pattern's last \<open>\n\<close> matches: the match ends at the last
  newline of that run, and there is no match when the run holds no newline. The scan
  resumes right after the match.
\<close>

definition after_last_newline :: "str \<Rightarrow> str" where
  "after_last_newline w = rev (takeWhile (\<lambda>c. c \<noteq> 10) (rev w))"

function remove_empty_lines :: "str \<Rightarrow> str" where
  "remove_empty_lines [] = []"
| "remove_empty_lines (c # r) =
     (if c = 10 \<and> 10 \<in> set (takeWhile isspace r)
      then 10 # remove_empty_lines (after_last_newline (takeWhile isspace r) @ dropWhile isspace r)
      else c # remove_empty_lines r)"
  by pat_completeness auto
termination
proof (relation "measure length", goal_cases)
  case 1
  show ?case by simp
next
  case (2 c r)
  have "length (after_last_newline (takeWhile isspace r)) \<le> length (takeWhile isspace r)"
    unfolding after_last_newline_def by (metis length_rev length_takeWhile_le)
  moreover have "length (takeWhile isspace r) + length (dropWhile isspace r) = length r"
    by (metis length_append takeWhile_dropWhile_id)
  ultimately show ?case by simp
next
  case 3
  show ?case by simp
qed

text \<open>
  \<open>remove_xml_tags\<close> is \<open>re.sub(r"<[^>]+>", "", text_input)\<close>. A match starts at a \<open><\<close>;
  \<open>[^>]+\<close> takes every character up to the next \<open>>\<close> (newlines and further \<open><\<close> included)
  and must take at least one; the \<open>>\<close> must then be there.
\<close>

function remove_xml_tags :: "str \<Rightarrow> str" where
  "remove_xml_tags [] = []"
| "remove_xml_tags (c # r) =
     (if c = 60 \<and> takeWhile (\<lambda>x. x \<noteq> 62) r \<noteq> [] \<and> dropWhile (\<lambda>x. x \<noteq> 62) r \<noteq> []
      then remove_xml_tags (tl (dropWhile (\<lambda>x. x \<noteq> 62) r))
      else c # remove_xml_tags r)"
  by pat_completeness auto
termination
proof (relation "measure length", goal_cases)
  case 1
  show ?case by simp
next
  case (2 c r)
  have "length (dropWhile (\<lambda>x. x \<noteq> 62) r) \<le> length r"
    by (rule length_dropWhile_le)
  then show ?case by simp
next
  case 3
  show ?case by simp
qed

text \<open>\<open>strip_lines\<close> is \<open>"\n".join(line.strip() for line in text_input.splitlines())\<close>.\<close>

definition strip_lines :: "str \<Rightarrow> str" where
  "strip_lines text_input = join [10] (map strip (splitlines text_input))"

text \<open>\<open>remove_first_empty_line\<close>: drops the first line when it is blank.\<close>

definition remove_first_empty_line :: "str \<Rightarrow> str" where
  "remove_first_empty_line text_input =
     (case splitlines text_input of
        [] \<Rightarrow> text_input
      | l # ls \<Rightarrow> if strip l = [] then join [10] ls else text_input)"

text \<open>
  The string \<open>"<a>\n\nHello  \n</a>"\<close> of claim C8.
\<close>

definition sample_text :: str where
  "sample_text = lit ''<a>'' @ [10, 10] @ lit ''Hello  '' @ [10] @ lit ''</a>''"

section \<open>Python values, exceptions and the job state store (main/views.py)\<close>

text \<open>
  The exceptions the modelled code raises or lets through. Each carries the text that
  \<open>str(e)\<close> gives; an \<open>HTTPError\<close> also carries the status code of its response.
  \<open>RequestException\<close> stands for the other failures of \<open>requests\<close> (time-outs,
  connection errors), which are not \<open>HTTPError\<close>s.
\<close>

datatype exn =
    HTTPError nat str
  | RequestException str
  | RuntimeError str
  | ValueError str
  | KeyError str
  | IndexError str
  | TypeError str

fun str_exn :: "exn \<Rightarrow> str" where
  "str_exn (HTTPError code msg) = msg"
| "str_exn (RequestException msg) = msg"
| "str_exn (RuntimeError msg) = msg"
| "str_exn (ValueError msg) = msg"
| "str_exn (KeyError msg) = msg"
| "str_exn (IndexError msg) = msg"
| "str_exn (TypeError msg) = msg"

text \<open>
  One entry of the \<open>results\<close> list of a recognition job: the dict with the keys \<open>page\<close>,
  \<open>mllm_merged_result\<close>, \<open>ocr_engine_result\<close> and \<open>mllm_only_result\<close>. The HTR text
  comes from the list that \<open>_poll_transkribus_jobs\<close> declares as \<open>list[str | None]\<close>.
\<close>

record page_result =
  page :: nat
  mllm_merged_result :: str
  ocr_engine_result :: "str option"
  mllm_only_result :: str

text \<open>
  The values a job record holds: strings, the integer counters, the \<open>created_at\<close> time
  stamp (a float of seconds; the stamps and the arithmetic on them are kept exact as
  rationals) and the list of page results.
\<close>

datatype pyval =
    PyStr str
  | PyInt int
  | PyFloat rat
  | PyResults "page_result list"

text \<open>
  A job record is a dict from field names to values. \<open>process_status_store\<close> is a dict
  from process ids to job records; it is iterated by the sweep, so it is kept as the list
  of its items (a dict has each key once: \<open>distinct (map fst store)\<close>).
\<close>

type_synonym job_record = "string \<rightharpoonup> pyval"

type_synonym store = "(string \<times> job_record) list"

definition PROCESS_ENTRY_TTL :: rat where
  "PROCESS_ENTRY_TTL = 3600"

text \<open>
  \<open>data.get("created_at", 0) < cutoff\<close>: the comparison of the stored stamp (0 when the
  key is missing) with the cutoff; comparing a string or a list with a number raises
  \<open>TypeError\<close>.
\<close>

definition created_before :: "job_record \<Rightarrow> rat \<Rightarrow> exn + bool" where
  "created_before data cutoff =
     (case data ''created_at'' of
        None \<Rightarrow> Inr (0 < cutoff)
      | Some (PyFloat t) \<Rightarrow> Inr (t < cutoff)
      | Some (PyInt i) \<Rightarrow> Inr (of_int i < cutoff)
      | Some (PyStr s) \<Rightarrow> Inl (TypeError (lit ''unsupported operand''))
      | Some (PyResults rs) \<Rightarrow> Inl (TypeError (lit ''unsupported operand'')))"

text \<open>
  The list comprehension \<open>[pid for pid, data in process_status_store.items()
  if data.get("created_at", 0) < cutoff]\<close>.
\<close>

fun to_delete :: "rat \<Rightarrow> store \<Rightarrow> exn + string list" where
  "to_delete cutoff [] = Inr []"
| "to_delete cutoff ((pid, data) # items) =
     (case created_before data cutoff of
        Inl e \<Rightarrow> Inl e
      | Inr old \<Rightarrow>
          (case to_delete cutoff items of
             Inl e \<Rightarrow> Inl e
           | Inr pids \<Rightarrow> Inr (if old then pid # pids else pids)))"

text \<open>
  \<open>_cleanup_old_entries\<close>, with the value of \<open>time.time()\<close> as the argument \<open>now\<close>.
  \<open>del process_status_store[pid]\<close> is \<open>AList.delete pid\<close>; every deleted key was just read
  from the dict, so the \<open>del\<close> cannot raise.
\<close>

definition cleanup_old_entries :: "rat \<Rightarrow> store \<Rightarrow> exn + store" where
  "cleanup_old_entries now process_status_store =
     (let cutoff = now - PROCESS_ENTRY_TTL in
      case to_delete cutoff process_status_store of
        Inl e \<Rightarrow> Inl e
      | Inr pids \<Rightarrow> Inr (fold AList.delete pids process_status_store))"

text \<open>A job record created at time 0, and a store that holds it.\<close>

definition job_at_0 :: job_record where
  "job_at_0 = [''status'' \<mapsto> PyStr (lit ''Texterkennung gestartet''),
               ''created_at'' \<mapsto> PyFloat 0]"

definition store_one_job :: store where
  "store_one_job = [(''job-1'', job_at_0)]"

section \<open>The HTR provider client (components/transkribus_api.py)\<close>

text \<open>
  The request headers built from an access token:
  \<open>{"Authorization": f"Bearer {access_token}", "Content-Type": "application/json"}\<close>.
  The token comes from \<open>response.json().get("access_token")\<close> and is \<open>None\<close> when the key is
  missing; the f-string then reads \<open>Bearer None\<close>.
\<close>

type_synonym headers = "(string \<times> str) list"

definition bearer_headers :: "str option \<Rightarrow> headers" where
  "bearer_headers access_token =
     [(''Authorization'',
         lit ''Bearer '' @ (case access_token of None \<Rightarrow> lit ''None'' | Some t \<Rightarrow> t)),
      (''Content-Type'', lit ''application/json'')]"

text \<open>
  What one job does that the outside can see, in the order in which it does it: sleeps,
  requests to the HTR provider, merge calls to the MLLM provider, and writes to its job
  record (\<open>process_status_store[process_id][key] = value\<close> and
  \<open>process_status_store[process_id]["results"].extend(...)\<close>).
\<close>

datatype event =
    Sleep rat
  | Login str str
  | StartRecognition "str option" str int
  | GetStatus str headers
  | MergeCall nat
  | TeiCall
  | SetField string pyval
  | ExtendResults "page_result list"

text \<open>
  The body of a status response: \<open>status_response.get("status")\<close> and
  \<open>status_response["content"]["text"]\<close> (\<open>None\<close> when a key is missing; by the annotation
  \<open>-> str\<close> of \<open>get_process_result\<close> the text, when present, is a string).
\<close>

record status_response =
  status :: "str option"
  content_text :: "str option"

text \<open>
  What \<open>requests.get\<close> or \<open>requests.post\<close> gives: no response at all (a time-out or a
  connection error, raised as an exception that is not an \<open>HTTPError\<close>), or a response with
  its status code, the text of the \<open>HTTPError\<close> that \<open>raise_for_status\<close> would build from
  it, and the outcome of \<open>response.json()\<close> (the decoded body, or the message of the decoding
  error).
\<close>

record 'b response =
  status_code :: nat
  error_text :: str
  json :: "str + 'b"

datatype 'b reply = NoResponse str | Response "'b response"

text \<open>
  The providers. Each reply may depend on everything the job has done so far (the history
  of events, sleeps included), so a page may finish after any number of polls, in any
  order, and a token may expire at any moment. The stand-alone MLLM transcriptions run in
  worker threads, outside the job's own sequence of events; they are indexed by the page.
\<close>

record net =
  login_reply :: "event list \<Rightarrow> str \<Rightarrow> str \<Rightarrow> (str option) reply"
  start_reply :: "event list \<Rightarrow> str option \<Rightarrow> str \<Rightarrow> int \<Rightarrow> (str option) reply"
  status_reply :: "event list \<Rightarrow> str \<Rightarrow> headers \<Rightarrow> status_response reply"
  mllm_only_atr_result :: "nat \<Rightarrow> str \<Rightarrow> str \<Rightarrow> rat \<Rightarrow> str \<Rightarrow> exn + str"
  merged_atr_mllm_result ::
    "event list \<Rightarrow> str \<Rightarrow> str option \<Rightarrow> str \<Rightarrow> str \<Rightarrow> rat \<Rightarrow> str \<Rightarrow> exn + str"
  tei_from_mllm ::
    "event list \<Rightarrow> str \<Rightarrow> str list \<Rightarrow> bool \<Rightarrow> str \<Rightarrow> str \<Rightarrow> str \<Rightarrow> rat \<Rightarrow> str \<Rightarrow> exn + str"

text \<open>
  The state of a running job: its record in \<open>process_status_store\<close> and the history of
  its events.
\<close>

record state =
  job :: job_record
  hist :: "event list"

definition emit :: "event \<Rightarrow> state \<Rightarrow> state" where
  "emit e st = st\<lparr>hist := hist st @ [e]\<rparr>"

text \<open>\<open>response.raise_for_status()\<close>: an \<open>HTTPError\<close> for the codes 400 to 599.\<close>

definition raise_for_status :: "'b response \<Rightarrow> exn + unit" where
  "raise_for_status r =
     (if 400 \<le> status_code r \<and> status_code r < 600
      then Inl (HTTPError (status_code r) (error_text r))
      else Inr ())"

text \<open>
  The three lines \<open>response = requests...\<close>, \<open>response.raise_for_status()\<close>,
  \<open>response.json()\<close> applied to a reply.
\<close>

definition checked_json :: "'b reply \<Rightarrow> exn + 'b" where
  "checked_json rp =
     (case rp of
        NoResponse msg \<Rightarrow> Inl (RequestException msg)
      | Response r \<Rightarrow>
          (case raise_for_status r of
             Inl e \<Rightarrow> Inl e
           | Inr u \<Rightarrow> (case json r of Inl msg \<Rightarrow> Inl (ValueError msg) | Inr body \<Rightarrow> Inr body)))"

definition transkribus_login :: "net \<Rightarrow> str \<Rightarrow> str \<Rightarrow> state \<Rightarrow> (exn + str option) \<times> state" where
  "transkribus_login nt username password st =
     (checked_json (login_reply nt (hist st) username password),
      emit (Login username password) st)"

text \<open>
  \<open>start_recognition_process\<close>: \<open>process_response["processId"]\<close> raises \<open>KeyError\<close> when
  the key is missing.
\<close>

definition start_recognition_process ::
  "net \<Rightarrow> str option \<Rightarrow> str \<Rightarrow> int \<Rightarrow> state \<Rightarrow> (exn + str \<times> headers) \<times> state" where
  "start_recognition_process nt access_token image_data model_id st =
     (let headers = bearer_headers access_token;
          st' = emit (StartRecognition access_token image_data model_id) st
      in case checked_json (start_reply nt (hist st) access_token image_data model_id) of
           Inl e \<Rightarrow> (Inl e, st')
         | Inr None \<Rightarrow> (Inl (KeyError (lit ''processId'')), st')
         | Inr (Some process_id) \<Rightarrow> (Inr (process_id, headers), st'))"

text \<open>
  \<open>check_process_status_with_retry\<close>. The \<open>except\<close> clause catches only the \<open>HTTPError\<close> of
  \<open>raise_for_status\<close>; on the code 401 it logs in again and repeats the request once, outside
  any \<open>try\<close>, so whatever the login or the second request raises goes to the caller.
\<close>

definition check_process_status_with_retry ::
  "net \<Rightarrow> str \<Rightarrow> headers \<Rightarrow> str \<Rightarrow> str \<Rightarrow> state
     \<Rightarrow> (exn + status_response \<times> headers) \<times> state" where
  "check_process_status_with_retry nt process_id headers username password st =
     (let st1 = emit (GetStatus process_id headers) st
      in case status_reply nt (hist st) process_id headers of
           NoResponse msg \<Rightarrow> (Inl (RequestException msg), st1)
         | Response r \<Rightarrow>
             (case raise_for_status r of
                Inr u \<Rightarrow>
                  (case json r of
                     Inl msg \<Rightarrow> (Inl (ValueError msg), st1)
                   | Inr status_response \<Rightarrow> (Inr (status_response, headers), st1))
              | Inl e \<Rightarrow>
                  if status_code r = 401
                  then (case transkribus_login nt username password st1 of
                          (Inl e', st2) \<Rightarrow> (Inl e', st2)
                        | (Inr new_access_token, st2) \<Rightarrow>
                            (let new_headers = bearer_headers new_access_token;
                                 st3 = emit (GetStatus process_id new_headers) st2
                             in case checked_json
                                       (status_reply nt (hist st2) process_id new_headers) of
                                  Inl e' \<Rightarrow> (Inl e', st3)
                                | Inr status_response \<Rightarrow>
                                    (Inr (status_response, new_headers), st3)))
                  else (Inl e, st1)))"

text \<open>
  \<open>get_process_result\<close>: the text of a finished job; \<open>RuntimeError\<close> for any other
  status, \<open>KeyError\<close> when the text is missing.
\<close>

definition get_process_result :: "status_response \<Rightarrow> exn + str" where
  "get_process_result status_response =
     (if status status_response = Some (lit ''ERROR'')
      then Inl (RuntimeError (lit ''Transkribus-Verarbeitung fehlgeschlagen (Status: ERROR).''))
      else if status status_response \<noteq> Some (lit ''FINISHED'')
      then Inl (RuntimeError
                  (lit ''Transkribus-Prozess noch nicht abgeschlossen. Aktueller Status: ''
                   @ (case status status_response of None \<Rightarrow> lit ''None'' | Some s \<Rightarrow> s)))
      else (case content_text status_response of
              None \<Rightarrow> Inl (KeyError (lit ''text''))
            | Some recognized_text \<Rightarrow> Inr recognized_text))"

text \<open>
  A provider whose status endpoint answers every request with 401, whatever the token, and
  one that rejects only the token \<open>old\<close> and reports the job finished to any other token.
  Both accept every login and hand out the token \<open>new\<close>.
\<close>

definition unauthorized :: "status_response response" where
  "unauthorized = \<lparr>status_code = 401, error_text = lit ''401 Client Error: Unauthorized'',
                    json = Inl (lit ''no body'')\<rparr>"

definition ok_response :: "'b \<Rightarrow> 'b response" where
  "ok_response body = \<lparr>status_code = 200, error_text = [], json = Inr body\<rparr>"

definition net_always_401 :: net where
  "net_always_401 =
     \<lparr>login_reply = (\<lambda>h u p. Response (ok_response (Some (lit ''new'')))),
      start_reply = (\<lambda>h t i m. Response (ok_response (Some (lit ''p0'')))),
      status_reply = (\<lambda>h p hd. Response unauthorized),
      mllm_only_atr_result = (\<lambda>i m img t md. Inr (lit ''mllm'')),
      merged_atr_mllm_result = (\<lambda>h m htr ml img t md. Inr (lit ''merged'')),
      tei_from_mllm = (\<lambda>h m imgs mp txt pr cp t md. Inr (lit ''<TEI/>''))\<rparr>"

definition net_token_expired :: net where
  "net_token_expired =
     net_always_401\<lparr>status_reply := (\<lambda>h p hd.
        if hd = bearer_headers (Some (lit ''old'')) then Response unauthorized
        else Response (ok_response
               \<lparr>status = Some (lit ''FINISHED''), content_text = Some (lit ''text of '' @ p)\<rparr>))\<rparr>"

definition state0 :: state where
  "state0 = \<lparr>job = job_at_0, hist = []\<rparr>"

section \<open>The recognition pipeline (main/views.py)\<close>

text \<open>\<open>str(n)\<close> for a non-negative integer: its decimal digits (48 is the digit 0).\<close>

fun str_nat :: "nat \<Rightarrow> str" where
  "str_nat n = (if n < 10 then [48 + n] else str_nat (n div 10) @ [48 + n mod 10])"

declare str_nat.simps [simp del]

text \<open>\<open>process_status_store[process_id][key] = value\<close>.\<close>

definition set_field :: "string \<Rightarrow> pyval \<Rightarrow> state \<Rightarrow> state" where
  "set_field k v st = \<lparr>job = (job st)(k \<mapsto> v), hist = hist st @ [SetField k v]\<rparr>"

text \<open>
  \<open>process_status_store[process_id]["results"].extend(page_results)\<close>: reading the key
  raises \<open>KeyError\<close> when it is missing, and only a list has \<open>extend\<close>.
\<close>

definition extend_results :: "page_result list \<Rightarrow> state \<Rightarrow> exn + state" where
  "extend_results page_results st =
     (case job st ''results'' of
        None \<Rightarrow> Inl (KeyError (lit ''results''))
      | Some (PyResults rs) \<Rightarrow>
          Inr \<lparr>job = (job st)(''results'' \<mapsto> PyResults (rs @ page_results)),
               hist = hist st @ [ExtendResults page_results]\<rparr>
      | Some (PyStr s) \<Rightarrow> Inl (TypeError (lit ''no attribute extend''))
      | Some (PyInt i) \<Rightarrow> Inl (TypeError (lit ''no attribute extend''))
      | Some (PyFloat f) \<Rightarrow> Inl (TypeError (lit ''no attribute extend'')))"

text \<open>
  The credentials of \<open>ocr_workflow.settings\<close>, a module that is not part of the sources at
  hand: they are a parameter.
\<close>

record settings =
  USERNAME_TRANSKRIBUS_RA :: str
  PASSWORD_TRANSKRIBUS_RA :: str
  USERNAME_TRANSKRIBUS_GL :: str
  PASSWORD_TRANSKRIBUS_GL :: str

text \<open>The loop of \<open>_start_transkribus_jobs\<close> over the images.\<close>

fun start_jobs ::
  "net \<Rightarrow> str option \<Rightarrow> int \<Rightarrow> str list \<Rightarrow> str list \<Rightarrow> headers \<Rightarrow> state
     \<Rightarrow> (exn + str list \<times> headers) \<times> state" where
  "start_jobs nt access_token transkribus_model [] process_ids hdrs st =
     (Inr (process_ids, hdrs), st)"
| "start_jobs nt access_token transkribus_model (image_data # images) process_ids hdrs st =
     (case start_recognition_process nt access_token image_data transkribus_model st of
        (Inl e, st1) \<Rightarrow> (Inl e, st1)
      | (Inr (pid, hdrs1), st1) \<Rightarrow>
          start_jobs nt access_token transkribus_model images (process_ids @ [pid]) hdrs1 st1)"

definition start_transkribus_jobs ::
  "net \<Rightarrow> settings \<Rightarrow> str list \<Rightarrow> int \<Rightarrow> str \<Rightarrow> state
     \<Rightarrow> (exn + str list \<times> headers \<times> str \<times> str) \<times> state" where
  "start_transkribus_jobs nt cfg images_base64 transkribus_model mode st =
     (let username = (if mode = lit ''RA'' then USERNAME_TRANSKRIBUS_RA cfg
                      else USERNAME_TRANSKRIBUS_GL cfg);
          password = (if mode = lit ''RA'' then PASSWORD_TRANSKRIBUS_RA cfg
                      else PASSWORD_TRANSKRIBUS_GL cfg)
      in case transkribus_login nt username password st of
           (Inl e, st1) \<Rightarrow> (Inl e, st1)
         | (Inr access_token, st1) \<Rightarrow>
             (case start_jobs nt access_token transkribus_model images_base64 [] [] st1 of
                (Inl e, st2) \<Rightarrow> (Inl e, st2)
              | (Inr (process_ids, hdrs), st2) \<Rightarrow>
                  (Inr (process_ids, hdrs, username, password), st2)))"

text \<open>
  The local variables of \<open>_poll_transkribus_jobs\<close> that the loops update: \<open>results\<close>
  (\<open>list[str | None]\<close>), \<open>finished_count\<close> and \<open>headers\<close>.
\<close>

record poll_state =
  results :: "str option list"
  finished_count :: nat
  auth_headers :: headers

definition finished_message :: "nat \<Rightarrow> nat \<Rightarrow> str" where
  "finished_message finished total_pages =
     lit ''Texerkennung bei '' @ str_nat finished @ lit '' von '' @ str_nat total_pages
       @ lit '' Seite(n) abgeschlossen.''"

definition page_error_message :: "nat \<Rightarrow> str" where
  "page_error_message page_index =
     lit ''Fehler bei der Texterkennung bei Seite '' @ str_nat (page_index + 1)"

definition page_failed :: "nat \<Rightarrow> exn" where
  "page_failed page_index =
     RuntimeError (lit ''Transkribus processing failed for page '' @ str_nat (page_index + 1))"

text \<open>
  The body of the \<open>for page_index, pid in enumerate(process_ids)\<close> loop.
  \<open>results[page_index]\<close> raises \<open>IndexError\<close> beyond the end of the list.
\<close>

definition poll_page ::
  "net \<Rightarrow> str \<Rightarrow> str \<Rightarrow> nat \<Rightarrow> nat \<times> str \<Rightarrow> poll_state \<Rightarrow> state
     \<Rightarrow> (exn + poll_state) \<times> state" where
  "poll_page nt username password total_pages item ps st =
     (case item of (page_index, pid) \<Rightarrow>
        if length (results ps) \<le> page_index
        then (Inl (IndexError (lit ''list index out of range'')), st)
        else if results ps ! page_index \<noteq> None then (Inr ps, st)
        else
          (case check_process_status_with_retry nt pid (auth_headers ps) username password st of
             (Inl e, st1) \<Rightarrow> (Inl e, st1)
           | (Inr (status_response, hdrs), st1) \<Rightarrow>
               if status status_response = Some (lit ''FINISHED'')
               then (case get_process_result status_response of
                       Inl e \<Rightarrow> (Inl e, st1)
                     | Inr recognized \<Rightarrow>
                         (Inr \<lparr>results = (results ps)[page_index := Some recognized],
                               finished_count = finished_count ps + 1,
                               auth_headers = hdrs\<rparr>,
                          set_field ''status''
                            (PyStr (finished_message (finished_count ps + 1) total_pages)) st1))
               else if status status_response = Some (lit ''ERROR'')
               then (Inl (page_failed page_index),
                     set_field ''transkribus_status'' (PyStr (lit ''ERROR''))
                       (set_field ''status'' (PyStr (page_error_message page_index)) st1))
               else (Inr (ps\<lparr>auth_headers := hdrs\<rparr>), st1)))"

fun poll_pages ::
  "net \<Rightarrow> str \<Rightarrow> str \<Rightarrow> nat \<Rightarrow> (nat \<times> str) list \<Rightarrow> poll_state \<Rightarrow> state
     \<Rightarrow> (exn + poll_state) \<times> state" where
  "poll_pages nt username password total_pages [] ps st = (Inr ps, st)"
| "poll_pages nt username password total_pages (item # items) ps st =
     (case poll_page nt username password total_pages item ps st of
        (Inl e, st1) \<Rightarrow> (Inl e, st1)
      | (Inr ps1, st1) \<Rightarrow> poll_pages nt username password total_pages items ps1 st1)"

text \<open>
  The \<open>while finished_count < total_pages\<close> loop. It has no bound of its own, so the model
  counts rounds down from \<open>fuel\<close> and gives \<open>None\<close> when they are used up. The intervals
  5, 7.5, 11.25, 16.875, 25.3125 and 30 are exact binary floats, so the arithmetic on them
  is exact.
\<close>

fun poll_rounds ::
  "nat \<Rightarrow> net \<Rightarrow> str \<Rightarrow> str \<Rightarrow> nat \<Rightarrow> str list \<Rightarrow> rat \<Rightarrow> poll_state \<Rightarrow> state
     \<Rightarrow> ((exn + str option list) \<times> state) option" where
  "poll_rounds 0 nt username password total_pages process_ids poll_interval ps st =
     (if finished_count ps < total_pages then None else Some (Inr (results ps), st))"
| "poll_rounds (Suc fuel) nt username password total_pages process_ids poll_interval ps st =
     (if finished_count ps < total_pages
      then (case poll_pages nt username password total_pages (enumerate 0 process_ids) ps
                   (emit (Sleep poll_interval) st) of
              (Inl e, st1) \<Rightarrow> Some (Inl e, st1)
            | (Inr ps1, st1) \<Rightarrow>
                poll_rounds fuel nt username password total_pages process_ids
                  (min (poll_interval * (3 / 2)) 30) ps1 st1)
      else Some (Inr (results ps), st))"

definition poll_transkribus_jobs ::
  "nat \<Rightarrow> net \<Rightarrow> str list \<Rightarrow> headers \<Rightarrow> str \<Rightarrow> str \<Rightarrow> nat \<Rightarrow> state
     \<Rightarrow> ((exn + str option list) \<times> state) option" where
  "poll_transkribus_jobs fuel nt process_ids hdrs username password total_pages st =
     poll_rounds fuel nt username password total_pages process_ids 5
       \<lparr>results = replicate total_pages None, finished_count = 0, auth_headers = hdrs\<rparr> st"

text \<open>
  The loop of \<open>_merge_page_results\<close> over \<open>range(len(images_base64))\<close>; the first argument
  is the list of the indices still to do, the fourth the \<open>page_results\<close> so far.
\<close>

fun merge_pages ::
  "nat list \<Rightarrow> net \<Rightarrow> str list \<Rightarrow> page_result list \<Rightarrow> str option list \<Rightarrow> str list
     \<Rightarrow> str \<Rightarrow> rat \<Rightarrow> str \<Rightarrow> state \<Rightarrow> (exn + page_result list) \<times> state" where
  "merge_pages [] nt images_base64 page_results transkribus_results mllm_results
       model temperature mode st = (Inr page_results, st)"
| "merge_pages (page_index # rest) nt images_base64 page_results transkribus_results
       mllm_results model temperature mode st =
     (if length transkribus_results \<le> page_index \<or> length mllm_results \<le> page_index
         \<or> length images_base64 \<le> page_index
      then (Inl (IndexError (lit ''list index out of range'')), st)
      else
        (case merged_atr_mllm_result nt (hist st) model (transkribus_results ! page_index)
                (mllm_results ! page_index) (images_base64 ! page_index) temperature mode of
           Inl e \<Rightarrow> (Inl e, emit (MergeCall page_index) st)
         | Inr merged \<Rightarrow>
             merge_pages rest nt images_base64
               (page_results @
                  [\<lparr>page = page_index, mllm_merged_result = merged,
                    ocr_engine_result = transkribus_results ! page_index,
                    mllm_only_result = mllm_results ! page_index\<rparr>])
               transkribus_results mllm_results model temperature mode
               (emit (MergeCall page_index) st)))"

definition merge_page_results ::
  "net \<Rightarrow> str list \<Rightarrow> str option list \<Rightarrow> str list \<Rightarrow> str \<Rightarrow> rat \<Rightarrow> str \<Rightarrow> state
     \<Rightarrow> (exn + page_result list) \<times> state" where
  "merge_page_results nt images_base64 transkribus_results mllm_results model temperature mode st =
     merge_pages [0..<length images_base64] nt images_base64 [] transkribus_results mllm_results
       model temperature mode
       (set_field ''status''
          (PyStr (lit ''Ergebnisse f'' @ [252] @ lit ''r alle Seiten werden zusammengef''
                  @ [252] @ lit ''hrt...'')) st)"

text \<open>
  The futures of the \<open>ThreadPoolExecutor\<close>: one stand-alone MLLM transcription per image,
  submitted in the order of the images. The worker calls complete in some order, the list
  \<open>completion\<close> of their indices; each completion fills the slot of its own future.
\<close>

definition mllm_futures ::
  "net \<Rightarrow> nat list \<Rightarrow> str \<Rightarrow> str list \<Rightarrow> rat \<Rightarrow> str \<Rightarrow> (exn + str) option list" where
  "mllm_futures nt completion model images_base64 temperature mode =
     fold (\<lambda>i slots. slots[i := Some (mllm_only_atr_result nt i model (images_base64 ! i)
                                      temperature mode)])
       (filter (\<lambda>i. i < length images_base64) completion)
       (replicate (length images_base64) None)"

text \<open>
  \<open>[future.result() for future in mllm_futures]\<close>: the results in the order of the
  futures; the first exception met in that order is raised; waiting for a future that never
  completes does not return (\<open>None\<close>).
\<close>

fun future_results :: "(exn + str) option list \<Rightarrow> (exn + str list) option" where
  "future_results [] = Some (Inr [])"
| "future_results (None # futures) = None"
| "future_results (Some (Inl e) # futures) = Some (Inl e)"
| "future_results (Some (Inr r) # futures) =
     (case future_results futures of
        None \<Rightarrow> None
      | Some (Inl e) \<Rightarrow> Some (Inl e)
      | Some (Inr rs) \<Rightarrow> Some (Inr (r # rs)))"

definition MAX_MLLM_WORKERS :: nat where
  "MAX_MLLM_WORKERS = 10"

text \<open>
  The \<open>try\<close> block of \<open>process_ocr\<close>. \<open>ThreadPoolExecutor(max_workers=0)\<close> raises
  \<open>ValueError\<close>. Leaving the \<open>with\<close> block waits for every future, also when the polling
  raised.
\<close>

definition process_ocr_try ::
  "nat \<Rightarrow> nat list \<Rightarrow> net \<Rightarrow> settings \<Rightarrow> str list \<Rightarrow> int \<Rightarrow> str \<Rightarrow> rat \<Rightarrow> str \<Rightarrow> state
     \<Rightarrow> ((exn + unit) \<times> state) option" where
  "process_ocr_try fuel completion nt cfg images_base64 transkribus_model multimodal_llm_ocr
       temperature_ocr mode st =
     (let total_pages = length images_base64;
          st1 = set_field ''status''
                  (PyStr (lit ''Texterkennung f'' @ [252] @ lit ''r '' @ str_nat total_pages
                          @ lit '' Seite(n) wird gestartet...'')) st
      in case start_transkribus_jobs nt cfg images_base64 transkribus_model mode st1 of
           (Inl e, st2) \<Rightarrow> Some (Inl e, st2)
         | (Inr (transkribus_pids, hdrs, username, password), st2) \<Rightarrow>
             (let st3 = set_field ''transkribus_status'' (PyStr (lit ''RUNNING''))
                          (set_field ''status''
                             (PyStr (lit ''Texterkennung f'' @ [252] @ lit ''r alle ''
                                     @ str_nat total_pages @ lit '' Seite(n) l'' @ [228]
                                     @ lit ''uft parallel...'')) st2)
              in if min total_pages MAX_MLLM_WORKERS = 0
                 then Some (Inl (ValueError (lit ''max_workers must be greater than 0'')), st3)
                 else
                   (let futures = mllm_futures nt completion multimodal_llm_ocr images_base64
                                    temperature_ocr mode
                    in case poll_transkribus_jobs fuel nt transkribus_pids hdrs username password
                              total_pages st3 of
                         None \<Rightarrow> None
                       | Some (Inl e, st4) \<Rightarrow>
                           if list_all (\<lambda>f. f \<noteq> None) futures then Some (Inl e, st4) else None
                       | Some (Inr transkribus_results, st4) \<Rightarrow>
                           (let st5 = set_field ''status''
                                        (PyStr (lit ''Auf Ergebnisse des multimodalen Modells warten...''))
                                        st4
                            in case future_results futures of
                                 None \<Rightarrow> None
                               | Some (Inl e) \<Rightarrow>
                                   if list_all (\<lambda>f. f \<noteq> None) futures then Some (Inl e, st5)
                                   else None
                               | Some (Inr mllm_results) \<Rightarrow>
                                   (let st6 = set_field ''mllm_status'' (PyStr (lit ''FINISHED''))
                                                (set_field ''transkribus_status''
                                                   (PyStr (lit ''FINISHED'')) st5)
                                    in case merge_page_results nt images_base64 transkribus_results
                                              mllm_results multimodal_llm_ocr temperature_ocr mode st6 of
                                         (Inl e, st7) \<Rightarrow> Some (Inl e, st7)
                                       | (Inr page_results, st7) \<Rightarrow>
                                           (case extend_results page_results st7 of
                                              Inl e \<Rightarrow> Some (Inl e, st7)
                                            | Inr st8 \<Rightarrow>
                                                Some (Inr (),
                                                  set_field ''mllm_status'' (PyStr (lit ''FINISHED''))
                                                    (set_field ''transkribus_status''
                                                       (PyStr (lit ''FINISHED''))
                                                       (set_field ''status''
                                                          (PyStr (lit ''Verarbeitung abgeschlossen''))
                                                          st8)))))))))"

text \<open>
  \<open>process_ocr\<close>: the \<open>try\<close> block and the handler \<open>except Exception as e\<close>, which
  writes \<open>status\<close> and then \<open>error\<close>.
\<close>

definition process_ocr ::
  "nat \<Rightarrow> nat list \<Rightarrow> net \<Rightarrow> settings \<Rightarrow> str list \<Rightarrow> int \<Rightarrow> str \<Rightarrow> rat \<Rightarrow> str \<Rightarrow> state
     \<Rightarrow> state option" where
  "process_ocr fuel completion nt cfg images_base64 transkribus_model multimodal_llm_ocr
       temperature_ocr mode st =
     (case process_ocr_try fuel completion nt cfg images_base64 transkribus_model
             multimodal_llm_ocr temperature_ocr mode st of
        None \<Rightarrow> None
      | Some (Inr u, st1) \<Rightarrow> Some st1
      | Some (Inl e, st1) \<Rightarrow>
          Some (set_field ''error'' (PyStr (str_exn e))
                  (set_field ''status'' (PyStr (lit ''Fehler: '' @ str_exn e)) st1)))"

text \<open>
  The record that \<open>upload_image\<close> stores for a new recognition job, and
  \<open>check_status\<close>'s view of a record: a copy without \<open>created_at\<close>.
\<close>

definition initial_ocr_record :: "nat \<Rightarrow> rat \<Rightarrow> job_record" where
  "initial_ocr_record total_pages now =
     [''status'' \<mapsto> PyStr (lit ''Texterkennung gestartet''),
      ''transkribus_status'' \<mapsto> PyStr (lit ''PENDING''),
      ''mllm_status'' \<mapsto> PyStr (lit ''PENDING''),
      ''total_pages'' \<mapsto> PyInt (int total_pages),
      ''current_page'' \<mapsto> PyInt 0,
      ''results'' \<mapsto> PyResults [],
      ''created_at'' \<mapsto> PyFloat now]"

definition status_data :: "job_record \<Rightarrow> job_record" where
  "status_data data = data(''created_at'' := None)"

section \<open>Observations on the history of a job\<close>

text \<open>The sleep intervals of a history, in order.\<close>

fun sleeps :: "event list \<Rightarrow> rat list" where
  "sleeps [] = []"
| "sleeps (Sleep d # es) = d # sleeps es"
| "sleeps (e # es) = sleeps es"

text \<open>The requests to the HTR provider: they touch neither the clock nor the job record.\<close>

fun is_request :: "event \<Rightarrow> bool" where
  "is_request (Login u p) = True"
| "is_request (StartRecognition t i m) = True"
| "is_request (GetStatus p h) = True"
| "is_request e = False"

text \<open>The writes to the job record.\<close>

fun is_write :: "event \<Rightarrow> bool" where
  "is_write (SetField k v) = True"
| "is_write (ExtendResults rs) = True"
| "is_write e = False"

text \<open>
  The events of a recognition job that only report progress: every event but a write to
  the job record, and the writes to the keys \<open>status\<close>, \<open>transkribus_status\<close> and
  \<open>mllm_status\<close>.
\<close>

fun quiet :: "event \<Rightarrow> bool" where
  "quiet (SetField k v) = (k = ''status'' \<or> k = ''transkribus_status'' \<or> k = ''mllm_status'')"
| "quiet (ExtendResults rs) = False"
| "quiet e = True"

text \<open>The writes of a history applied to a job record, in order.\<close>

fun replay :: "event list \<Rightarrow> job_record \<Rightarrow> job_record" where
  "replay [] data = data"
| "replay (SetField k v # es) data = replay es (data(k \<mapsto> v))"
| "replay (ExtendResults rs # es) data =
     replay es (case data ''results'' of
                  Some (PyResults old) \<Rightarrow> data(''results'' \<mapsto> PyResults (old @ rs))
                | _ \<Rightarrow> data)"
| "replay (e # es) data = replay es data"





text \<open>
  \<open>steps st st' evs\<close>: the job went from \<open>st\<close> to \<open>st'\<close> by the events \<open>evs\<close>, and its record
  changed by their writes only.
\<close>

definition steps :: "state \<Rightarrow> state \<Rightarrow> event list \<Rightarrow> bool" where
  "steps st st' evs \<longleftrightarrow> hist st' = hist st @ evs \<and> job st' = replay evs (job st)"



text \<open>\<open>quiet_steps\<close>: from \<open>st\<close> to \<open>st'\<close> by events that only report progress.\<close>

definition quiet_steps :: "state \<Rightarrow> state \<Rightarrow> bool" where
  "quiet_steps st st' \<longleftrightarrow> (\<exists>evs. steps st st' evs \<and> list_all quiet evs)"


text \<open>
  The events that follow the first write to the key \<open>error\<close> (\<open>None\<close> when the history
  holds no such write).
\<close>

fun after_error :: "event list \<Rightarrow> event list option" where
  "after_error [] = None"
| "after_error (SetField k v # es) = (if k = ''error'' then Some es else after_error es)"
| "after_error (e # es) = after_error es"

section \<open>The annotation pipeline (main/views.py)\<close>

text \<open>
  \<open>text.replace(pat, "")\<close>, which is also what \<open>re.sub\<close> does for a pattern without
  special characters: every occurrence of \<open>pat\<close>, found from left to right without
  overlap, is taken out. The patterns of the source are not empty.
\<close>

function remove_all :: "str \<Rightarrow> str \<Rightarrow> str" where
  "remove_all pat [] = []"
| "remove_all pat (c # r) =
     (if pat \<noteq> [] \<and> take (length pat) (c # r) = pat
      then remove_all pat (drop (length pat) (c # r))
      else c # remove_all pat r)"
  by pat_completeness auto
termination
  by (relation "measure (\<lambda>(pat, s). length s)") auto

text \<open>\<open>remove_accent\<close>: the code fences \<open>```xml\<close> and \<open>```\<close> (96 is the backtick).\<close>

definition remove_accent :: "str \<Rightarrow> str" where
  "remove_accent text_input =
     remove_all [96, 96, 96] (remove_all ([96, 96, 96] @ lit ''xml'') text_input)"

definition remove_specific_string :: "str \<Rightarrow> str" where
  "remove_specific_string text_input =
     remove_all (lit ''hat keine Adresse, ist gepr'' @ [252] @ lit ''ft'') text_input"

text \<open>
  The \<open>try\<close> block of \<open>process_tei\<close>. A single-page job passes \<open>images_base64[0]\<close>, which
  raises \<open>IndexError\<close> on an empty list.
\<close>

definition process_tei_try ::
  "net \<Rightarrow> bool \<Rightarrow> str \<Rightarrow> str list \<Rightarrow> str \<Rightarrow> str \<Rightarrow> str \<Rightarrow> rat \<Rightarrow> str \<Rightarrow> state
     \<Rightarrow> (exn + unit) \<times> state" where
  "process_tei_try nt is_multipage multimodal_llm_tei images_base64 merged_text chosen_prompt
       custom_prompt_text temperature_tei mode st =
     (let st1 = set_field ''status'' (PyStr (lit ''TEI-XML wird generiert...'')) st
      in if \<not> is_multipage \<and> images_base64 = []
         then (Inl (IndexError (lit ''list index out of range'')), st1)
         else
           (case tei_from_mllm nt (hist st1) multimodal_llm_tei
                   (if is_multipage then images_base64 else [hd images_base64]) is_multipage
                   merged_text chosen_prompt custom_prompt_text temperature_tei mode of
              Inl e \<Rightarrow> (Inl e, emit TeiCall st1)
            | Inr answer \<Rightarrow>
                (let result_tei = remove_first_empty_line answer;
                     result_text_content_only =
                       remove_first_empty_line
                         (remove_specific_string
                            (strip_lines
                               (remove_empty_lines
                                  (remove_accent (remove_xml_tags result_tei)))))
                 in (Inr (),
                     set_field ''result_text_content_only'' (PyStr result_text_content_only)
                       (set_field ''result_tei'' (PyStr result_tei)
                          (set_field ''tei_status'' (PyStr (lit ''FINISHED''))
                             (set_field ''status'' (PyStr (lit ''Verarbeitung abgeschlossen''))
                                (emit TeiCall st1))))))))"

text \<open>
  \<open>process_tei\<close>: the \<open>try\<close> block and the handler \<open>except Exception as e\<close>, which
  writes \<open>status\<close>, then \<open>error\<close>, then \<open>tei_status\<close>.
\<close>

definition process_tei ::
  "net \<Rightarrow> bool \<Rightarrow> str \<Rightarrow> str list \<Rightarrow> str \<Rightarrow> str \<Rightarrow> str \<Rightarrow> rat \<Rightarrow> str \<Rightarrow> state \<Rightarrow> state" where
  "process_tei nt is_multipage multimodal_llm_tei images_base64 merged_text chosen_prompt
       custom_prompt_text temperature_tei mode st =
     (case process_tei_try nt is_multipage multimodal_llm_tei images_base64 merged_text
             chosen_prompt custom_prompt_text temperature_tei mode st of
        (Inr u, st1) \<Rightarrow> st1
      | (Inl e, st1) \<Rightarrow>
          set_field ''tei_status'' (PyStr (lit ''ERROR''))
            (set_field ''error'' (PyStr (str_exn e))
               (set_field ''status'' (PyStr (lit ''Fehler: '' @ str_exn e)) st1)))"

text \<open>
  The record that \<open>create_tei\<close> stores for a new annotation job.
\<close>

definition initial_tei_record :: "rat \<Rightarrow> job_record" where
  "initial_tei_record now =
     [''status'' \<mapsto> PyStr (lit ''TEI-XML-Generierung gestartet''),
      ''tei_status'' \<mapsto> PyStr (lit ''RUNNING''),
      ''created_at'' \<mapsto> PyFloat now]"

section \<open>The submission entry points (main/views.py)\<close>

definition VALID_MODES :: "str set" where
  "VALID_MODES = {lit ''RA'', lit ''GL''}"

definition VALID_MODELS :: "str set" where
  "VALID_MODELS = {lit ''gpt-5.2'', lit ''claude-sonnet-4-5-20250929'', lit ''gemini-2.5-pro'',
                   lit ''gemini-3-pro-preview''}"

definition VALID_PROMPTS :: "str set" where
  "VALID_PROMPTS = {lit ''prompt-tei-gl'', lit ''prompt-tei-ra'', lit ''prompt-tei-custom''}"

definition MAX_PAGES :: nat where
  "MAX_PAGES = 10"

text \<open>
  An uploaded file is its content. A request has its method, the form fields
  (\<open>request.POST.get(key)\<close> is \<open>POST r key\<close>) and the uploaded files:
  \<open>request.FILES.getlist(key)\<close> is \<open>FILES r key\<close>, the empty list for a key without file;
  \<open>key in request.FILES\<close> holds when that list is not empty, and \<open>request.FILES[key]\<close> is
  then its last file.
\<close>

type_synonym uploaded_file = "nat list"

record request =
  http_method :: str
  POST :: "string \<rightharpoonup> str"
  FILES :: "string \<Rightarrow> uploaded_file list"

text \<open>A Python float as \<open>float(...)\<close> can return it.\<close>

datatype pyfloat = Finite rat | PosInf | NegInf | NaN

text \<open>
  What the entry points take from outside the sources at hand: \<open>base64\<close> behind
  \<open>encode_image\<close>, the built-in conversions \<open>float(s)\<close> and \<open>int(s)\<close> of a string (\<open>None\<close> for a
  \<open>ValueError\<close>), and the identifiers \<open>str(uuid.uuid4())\<close> in the order in which they are
  drawn.
\<close>

record env =
  encode_image :: "uploaded_file \<Rightarrow> str"
  float_of :: "str \<Rightarrow> pyfloat option"
  int_of :: "str \<Rightarrow> int option"
  uuid4 :: "nat \<Rightarrow> string"

text \<open>
  The state the entry points share: the store, and how many identifiers have been drawn.
\<close>

record server =
  process_status_store :: store
  uuids_drawn :: nat

text \<open>\<open>JsonResponse(body, status=code)\<close>; the code is 200 when none is given.\<close>

datatype json_response = JsonResponse "(string \<times> str) list" nat

text \<open>
  The background thread an entry point starts, with the values its closure holds: the
  process id, and the arguments of \<open>process_ocr\<close> or \<open>process_tei\<close>.
\<close>

datatype thread =
    OcrThread string "str list" int str rat str
  | TeiThread string bool str "str list" str str str rat str

type_synonym outcome = "(exn + json_response) \<times> server \<times> thread option"

definition error_response :: "str \<Rightarrow> nat \<Rightarrow> server \<Rightarrow> outcome" where
  "error_response msg code srv = (Inr (JsonResponse [(''error'', msg)] code), srv, None)"

text \<open>\<open>f"{x}"\<close> for a value that may be \<open>None\<close>.\<close>

definition fmt :: "str option \<Rightarrow> str" where
  "fmt x = (case x of None \<Rightarrow> lit ''None'' | Some s \<Rightarrow> s)"

text \<open>\<open>x not in S\<close> for a value that may be \<open>None\<close>.\<close>

definition not_in :: "str option \<Rightarrow> str set \<Rightarrow> bool" where
  "not_in x S = (case x of None \<Rightarrow> True | Some s \<Rightarrow> s \<notin> S)"

text \<open>\<open>TEMPERATURE_MIN <= t <= TEMPERATURE_MAX\<close>, with the bounds 0.0 and 2.0.\<close>

definition temperature_in_range :: "pyfloat \<Rightarrow> bool" where
  "temperature_in_range t = (case t of Finite r \<Rightarrow> 0 \<le> r \<and> r \<le> 2 | _ \<Rightarrow> False)"

definition temperature_of :: "pyfloat \<Rightarrow> rat" where
  "temperature_of t = (case t of Finite r \<Rightarrow> r | _ \<Rightarrow> 0)"

definition temperature_message :: str where
  "temperature_message = lit ''Temperature muss zwischen 0.0 und 2.0 liegen''"

text \<open>The key \<open>f"image_{i}"\<close>.\<close>

definition image_key :: "nat \<Rightarrow> string" where
  "image_key i = ''image_'' @ map char_of (str_nat i)"

text \<open>
  The tail of both entry points: draw the identifier, sweep the store, store the new
  record, start the thread, answer with the identifier. An exception of the sweep leaves
  the view after the identifier has been drawn.
\<close>

definition start_job ::
  "env \<Rightarrow> rat \<Rightarrow> job_record \<Rightarrow> (string \<Rightarrow> thread) \<Rightarrow> server \<Rightarrow> outcome" where
  "start_job ev now_sweep record thread_of srv =
     (let process_id = uuid4 ev (uuids_drawn srv);
          srv1 = srv\<lparr>uuids_drawn := Suc (uuids_drawn srv)\<rparr>
      in case cleanup_old_entries now_sweep (process_status_store srv1) of
           Inl e \<Rightarrow> (Inl e, srv1, None)
         | Inr swept \<Rightarrow>
             (Inr (JsonResponse [(''process_id'', map of_char process_id)] 200),
              srv1\<lparr>process_status_store := AList.update process_id record swept\<rparr>,
              Some (thread_of process_id)))"

text \<open>
  The loop \<open>for i in range(num_pages)\<close> of \<open>create_tei\<close>: the encoded images, or the first
  index whose key is not in \<open>request.FILES\<close>.
\<close>

fun collect_images :: "env \<Rightarrow> request \<Rightarrow> nat list \<Rightarrow> str list \<Rightarrow> nat + str list" where
  "collect_images ev r [] images_base64 = Inr images_base64"
| "collect_images ev r (i # rest) images_base64 =
     (if FILES r (image_key i) \<noteq> []
      then collect_images ev r rest
             (images_base64 @ [encode_image ev (last (FILES r (image_key i)))])
      else Inl i)"

text \<open>
  \<open>create_tei\<close>. \<open>now_sweep\<close> and \<open>now_created\<close> are the values of the two calls of
  \<open>time.time()\<close>.
\<close>

definition create_tei :: "env \<Rightarrow> rat \<Rightarrow> rat \<Rightarrow> request \<Rightarrow> server \<Rightarrow> outcome" where
  "create_tei ev now_sweep now_created r srv =
     (if http_method r \<noteq> lit ''POST''
      then error_response (lit ''POST-Anfrage erforderlich'') 405 srv
      else if not_in (POST r ''multimodal-llm-tei'') VALID_MODELS
      then error_response (lit ''Ung'' @ [252] @ lit ''ltiges Modell: ''
                           @ fmt (POST r ''multimodal-llm-tei'')) 400 srv
      else if not_in (POST r ''prompt-transformation-tei'') VALID_PROMPTS
      then error_response (lit ''Ung'' @ [252] @ lit ''ltiger Prompt: ''
                           @ fmt (POST r ''prompt-transformation-tei'')) 400 srv
      else
        (case float_of ev (case POST r ''temperature-tei'' of None \<Rightarrow> lit ''0.0'' | Some s \<Rightarrow> s) of
           None \<Rightarrow> error_response (lit ''Ung'' @ [252] @ lit ''ltiger Temperature-Wert'') 400 srv
         | Some temperature_tei \<Rightarrow>
             if \<not> temperature_in_range temperature_tei
             then error_response temperature_message 400 srv
             else if POST r ''merged_text'' = None \<or> POST r ''merged_text'' = Some []
             then error_response (lit ''Kein Text '' @ [252] @ lit ''bergeben'') 400 srv
             else
               (let mode = (case POST r ''mode'' of None \<Rightarrow> lit ''RA'' | Some m \<Rightarrow> m) in
                if mode \<notin> VALID_MODES
                then error_response (lit ''Ung'' @ [252] @ lit ''ltiger Modus: '' @ mode) 400 srv
                else
                  (let job_of = (\<lambda>is_multipage images_base64.
                         start_job ev now_sweep (initial_tei_record now_created)
                           (\<lambda>process_id. TeiThread process_id is_multipage
                              (fmt (POST r ''multimodal-llm-tei'')) images_base64
                              (fmt (POST r ''merged_text''))
                              (fmt (POST r ''prompt-transformation-tei''))
                              (case POST r ''custom-prompt-text'' of None \<Rightarrow> [] | Some s \<Rightarrow> s)
                              (temperature_of temperature_tei) mode) srv)
                   in if POST r ''num_pages'' \<noteq> None \<and> POST r ''num_pages'' \<noteq> Some []
                      then (case int_of ev (fmt (POST r ''num_pages'')) of
                              None \<Rightarrow> error_response (lit ''Ung'' @ [252] @ lit ''ltige Seitenanzahl'')
                                        400 srv
                            | Some num_pages \<Rightarrow>
                                if \<not> (1 \<le> num_pages \<and> num_pages \<le> int MAX_PAGES)
                                then error_response
                                       (lit ''Seitenanzahl muss zwischen 1 und ''
                                        @ str_nat MAX_PAGES @ lit '' liegen'') 400 srv
                                else (case collect_images ev r [0..<nat num_pages] [] of
                                        Inl i \<Rightarrow> error_response
                                                   (lit ''Bild '' @ str_nat i @ lit '' fehlt'') 400 srv
                                      | Inr images_base64 \<Rightarrow> job_of True images_base64))
                      else if FILES r ''image'' \<noteq> []
                      then job_of False [encode_image ev (last (FILES r ''image''))]
                      else error_response (lit ''Kein Bild hochgeladen'') 400 srv))))"

text \<open>
  \<open>upload_image\<close>. \<open>int(None)\<close> raises the \<open>TypeError\<close> that the view catches together
  with \<open>ValueError\<close>.
\<close>

definition upload_image :: "env \<Rightarrow> rat \<Rightarrow> rat \<Rightarrow> request \<Rightarrow> server \<Rightarrow> outcome" where
  "upload_image ev now_sweep now_created r srv =
     (if \<not> (http_method r = lit ''POST'' \<and> FILES r ''images'' \<noteq> [])
      then error_response (lit ''POST-Anfrage mit Bildern erforderlich'') 400 srv
      else if not_in (POST r ''multimodal-llm-ocr'') VALID_MODELS
      then error_response (lit ''Ung'' @ [252] @ lit ''ltiges Modell: ''
                           @ fmt (POST r ''multimodal-llm-ocr'')) 400 srv
      else
        (case (case POST r ''transkribus-model'' of None \<Rightarrow> None | Some s \<Rightarrow> int_of ev s) of
           None \<Rightarrow> error_response (lit ''Ung'' @ [252] @ lit ''ltiges Transkribus-Modell'') 400 srv
         | Some transkribus_model \<Rightarrow>
             (case float_of ev (case POST r ''temperature-ocr'' of None \<Rightarrow> lit ''0.0'' | Some s \<Rightarrow> s) of
                None \<Rightarrow> error_response (lit ''Ung'' @ [252] @ lit ''ltiger Temperature-Wert'') 400 srv
              | Some temperature_ocr \<Rightarrow>
                  if \<not> temperature_in_range temperature_ocr
                  then error_response temperature_message 400 srv
                  else if MAX_PAGES < length (FILES r ''images'')
                  then error_response (lit ''Maximal '' @ str_nat MAX_PAGES @ lit '' Seiten erlaubt'')
                         400 srv
                  else if not_in (POST r ''mode'') VALID_MODES
                  then error_response (lit ''Ung'' @ [252] @ lit ''ltiger Modus: ''
                                       @ fmt (POST r ''mode'')) 400 srv
                  else
                    (let images_base64 = map (encode_image ev) (FILES r ''images'')
                     in start_job ev now_sweep
                          (initial_ocr_record (length images_base64) now_created)
                          (\<lambda>process_id. OcrThread process_id images_base64 transkribus_model
                             (fmt (POST r ''multimodal-llm-ocr'')) (temperature_of temperature_ocr)
                             (fmt (POST r ''mode''))) srv))))"

text \<open>
  The checks of \<open>create_tei\<close> that come before the page count is looked at: request
  method, model, prompt, temperature, merged text and mode.
\<close>

definition passes_tei_checks :: "env \<Rightarrow> request \<Rightarrow> bool" where
  "passes_tei_checks ev r \<longleftrightarrow>
     http_method r = lit ''POST''
     \<and> \<not> not_in (POST r ''multimodal-llm-tei'') VALID_MODELS
     \<and> \<not> not_in (POST r ''prompt-transformation-tei'') VALID_PROMPTS
     \<and> (case float_of ev (case POST r ''temperature-tei'' of None \<Rightarrow> lit ''0.0'' | Some s \<Rightarrow> s) of
          None \<Rightarrow> False
        | Some t \<Rightarrow> temperature_in_range t)
     \<and> POST r ''merged_text'' \<noteq> None \<and> POST r ''merged_text'' \<noteq> Some []
     \<and> (case POST r ''mode'' of None \<Rightarrow> lit ''RA'' | Some m \<Rightarrow> m) \<in> VALID_MODES"

text \<open>
  The checks of \<open>upload_image\<close> that come before the mode is looked at: request method
  and images, model, HTR model id, temperature and number of pages.
\<close>

definition passes_ocr_checks :: "env \<Rightarrow> request \<Rightarrow> bool" where
  "passes_ocr_checks ev r \<longleftrightarrow>
     http_method r = lit ''POST'' \<and> FILES r ''images'' \<noteq> []
     \<and> \<not> not_in (POST r ''multimodal-llm-ocr'') VALID_MODELS
     \<and> (case POST r ''transkribus-model'' of None \<Rightarrow> False | Some s \<Rightarrow> int_of ev s \<noteq> None)
     \<and> (case float_of ev (case POST r ''temperature-ocr'' of None \<Rightarrow> lit ''0.0'' | Some s \<Rightarrow> s) of
          None \<Rightarrow> False
        | Some t \<Rightarrow> temperature_in_range t)
     \<and> length (FILES r ''images'') \<le> MAX_PAGES"

section \<open>Example providers and inputs\<close>

text \<open>
  A provider with two pages in mind: the job of an image \<open>x\<close> gets the process id
  \<open>job-x\<close>; \<open>job-a\<close> is finished at the first poll, every other job only from the second
  round of polling on. The MLLM answers with texts that name the image.
\<close>

definition net_two_pages :: net where
  "net_two_pages =
     \<lparr>login_reply = (\<lambda>h u p. Response (ok_response (Some (lit ''token'')))),
      start_reply = (\<lambda>h t image m. Response (ok_response (Some (lit ''job-'' @ image)))),
      status_reply = (\<lambda>h pid hd. Response (ok_response
         (if pid = lit ''job-a'' \<or> 2 \<le> length (sleeps h)
          then \<lparr>status = Some (lit ''FINISHED''), content_text = Some (lit ''htr of '' @ pid)\<rparr>
          else \<lparr>status = Some (lit ''RUNNING''), content_text = None\<rparr>))),
      mllm_only_atr_result = (\<lambda>i m image t md. Inr (lit ''mllm of '' @ image)),
      merged_atr_mllm_result = (\<lambda>h m htr ml image t md. Inr (lit ''merged of '' @ image)),
      tei_from_mllm = (\<lambda>h m imgs mp txt pr cp t md. Inr (lit ''<TEI/>''))\<rparr>"


definition two_images :: "str list" where
  "two_images = [lit ''a'', lit ''b'']"

definition cfg0 :: settings where
  "cfg0 = \<lparr>USERNAME_TRANSKRIBUS_RA = lit ''ra'', PASSWORD_TRANSKRIBUS_RA = lit ''ra-secret'',
           USERNAME_TRANSKRIBUS_GL = lit ''gl'', PASSWORD_TRANSKRIBUS_GL = lit ''gl-secret''\<rparr>"

text \<open>The state of a two-page recognition job that \<open>upload_image\<close> has just created.\<close>

definition ocr_state0 :: state where
  "ocr_state0 = \<lparr>job = initial_ocr_record 2 0, hist = []\<rparr>"

text \<open>A provider whose MLLM refuses the annotation call, and a new annotation job.\<close>

definition net_tei_fails :: net where
  "net_tei_fails =
     net_two_pages\<lparr>tei_from_mllm :=
       (\<lambda>h m imgs mp txt pr cp t md. Inl (ValueError (lit ''response blocked'')))\<rparr>"

definition tei_state0 :: state where
  "tei_state0 = \<lparr>job = initial_tei_record 0, hist = []\<rparr>"

text \<open>
  The history of the two-page job on \<open>net_two_pages\<close>, the MLLM call of the second page
  completing before that of the first.
\<close>

definition two_pages_history :: "event list" where
  "two_pages_history =
     (case process_ocr (Suc (Suc (Suc 0))) [1, 0] net_two_pages cfg0 two_images 7
             (lit ''gpt-5.2'') 0 (lit ''RA'') ocr_state0 of
        None \<Rightarrow> []
      | Some st \<Rightarrow> hist st)"

text \<open>
  The history of a single-page annotation job whose MLLM call fails, and that of a
  single-page recognition job whose status requests are all refused.
\<close>

definition tei_failure_history :: "event list" where
  "tei_failure_history =
     hist (process_tei net_tei_fails False (lit ''gpt-5.2'') [lit ''a''] (lit ''Hello'')
             (lit ''prompt-tei-ra'') [] 0 (lit ''RA'') tei_state0)"

definition ocr_failure_state :: "state option" where
  "ocr_failure_state =
     process_ocr (Suc 0) [0] net_always_401 cfg0 [lit ''a''] 7 (lit ''gpt-5.2'') 0 (lit ''RA'')
       \<lparr>job = initial_ocr_record 1 0, hist = []\<rparr>"

text \<open>
  An environment for the entry points (its conversions know the few strings the examples
  use), a server whose store holds one job, and three requests: an annotation request
  that declares three pages and brings the images 0 and 1, first with a valid model and
  then with none; and a single-page annotation request and a recognition request that
  are complete but for the \<open>mode\<close> field.
\<close>

definition env0 :: env where
  "env0 = \<lparr>encode_image = (\<lambda>f. lit ''b64:'' @ f),
           float_of = (\<lambda>s. if s = lit ''0.0'' then Some (Finite 0)
                            else if s = lit ''1.5'' then Some (Finite (3 / 2)) else None),
           int_of = (\<lambda>s. if s = lit ''3'' then Some 3
                          else if s = lit ''7'' then Some 7 else None),
           uuid4 = (\<lambda>n. ''uuid-'' @ map char_of (str_nat n))\<rparr>"

definition server0 :: server where
  "server0 = \<lparr>process_status_store = store_one_job, uuids_drawn = 0\<rparr>"




definition tei_request_no_mode :: request where
  "tei_request_no_mode =
     \<lparr>http_method = lit ''POST'',
      POST = [''multimodal-llm-tei'' \<mapsto> lit ''gpt-5.2'',
              ''prompt-transformation-tei'' \<mapsto> lit ''prompt-tei-ra'',
              ''merged_text'' \<mapsto> lit ''Hello''],
      FILES = (\<lambda>k. if k = ''image'' then [[1, 2, 3]] else [])\<rparr>"

definition ocr_request_no_mode :: request where
  "ocr_request_no_mode =
     \<lparr>http_method = lit ''POST'',
      POST = [''multimodal-llm-ocr'' \<mapsto> lit ''gpt-5.2'',
              ''transkribus-model'' \<mapsto> lit ''7''],
      FILES = (\<lambda>k. if k = ''images'' then [[1, 2, 3]] else [])\<rparr>"

section \<open>Properties of the text clean-up\<close>

lemma isspace_newline: "isspace 10"
  by (simp add: isspace_def)

lemma after_last_newline_free: "10 \<notin> set (after_last_newline w)"
  unfolding after_last_newline_def by (auto dest: set_takeWhileD)

lemma after_last_newline_subset: "set (after_last_newline w) \<subseteq> set w"
  unfolding after_last_newline_def by (auto dest: set_takeWhileD)

lemma takeWhile_space_remainder:
  "takeWhile isspace (after_last_newline (takeWhile isspace r) @ dropWhile isspace r)
     = after_last_newline (takeWhile isspace r)"
proof -
  have a: "\<forall>x \<in> set (after_last_newline (takeWhile isspace r)). isspace x"
    using after_last_newline_subset [of "takeWhile isspace r"] by (auto dest: set_takeWhileD)
  have d: "takeWhile isspace (dropWhile isspace r) = []"
    by (induction r) auto
  from a d show ?thesis by (simp add: takeWhile_append2)
qed

lemma remove_empty_lines_match:
  "10 \<in> set (takeWhile isspace r) \<Longrightarrow>
     remove_empty_lines (10 # r)
       = 10 # remove_empty_lines (after_last_newline (takeWhile isspace r) @ dropWhile isspace r)"
  by simp

lemma remove_empty_lines_no_match:
  "\<not> (c = 10 \<and> 10 \<in> set (takeWhile isspace r)) \<Longrightarrow>
     remove_empty_lines (c # r) = c # remove_empty_lines r"
  by auto

lemma remove_empty_lines_keeps_run:
  "10 \<notin> set (takeWhile isspace r) \<Longrightarrow>
     takeWhile isspace (remove_empty_lines r) = takeWhile isspace r"
proof (induction r)
  case Nil
  show ?case by simp
next
  case (Cons c r)
  show ?case
  proof (cases "isspace c")
    case True
    with Cons.prems have "c \<noteq> 10" and "10 \<notin> set (takeWhile isspace r)" by auto
    with True Cons.IH show ?thesis by simp
  next
    case False
    with isspace_newline have "c \<noteq> 10" by auto
    with False show ?thesis by simp
  qed
qed

text \<open>
  C9. Blank-line removal is idempotent: for every string \<open>s\<close>,
  \<open>remove_empty_lines (remove_empty_lines s) = remove_empty_lines s\<close>.
\<close>

theorem remove_empty_lines_idempotent:
  "remove_empty_lines (remove_empty_lines s) = remove_empty_lines s"
proof (induction s rule: remove_empty_lines.induct)
  case 1
  show ?case by simp
next
  case (2 c r)
  let ?w = "takeWhile isspace r"
  let ?rest = "after_last_newline ?w @ dropWhile isspace r"
  show ?case
  proof (cases "c = 10 \<and> 10 \<in> set ?w")
    case True
    have "10 \<notin> set (takeWhile isspace ?rest)"
      by (simp only: takeWhile_space_remainder after_last_newline_free not_False_eq_True)
    then have "10 \<notin> set (takeWhile isspace (remove_empty_lines ?rest))"
      by (simp only: remove_empty_lines_keeps_run not_False_eq_True)
    then have "remove_empty_lines (10 # remove_empty_lines ?rest)
        = 10 # remove_empty_lines (remove_empty_lines ?rest)"
      by (intro remove_empty_lines_no_match) blast
    moreover have "remove_empty_lines (remove_empty_lines ?rest) = remove_empty_lines ?rest"
      using "2.IH"(1) True by blast
    moreover have "remove_empty_lines (c # r) = 10 # remove_empty_lines ?rest"
      using True remove_empty_lines_match [of r] by blast
    ultimately show ?thesis by (simp only:)
  next
    case False
    have ih: "remove_empty_lines (remove_empty_lines r) = remove_empty_lines r"
      using "2.IH"(2) False by blast
    have "\<not> (c = 10 \<and> 10 \<in> set (takeWhile isspace (remove_empty_lines r)))"
    proof
      assume h: "c = 10 \<and> 10 \<in> set (takeWhile isspace (remove_empty_lines r))"
      with False have "10 \<notin> set ?w" by simp
      then have "takeWhile isspace (remove_empty_lines r) = ?w"
        by (rule remove_empty_lines_keeps_run)
      with h \<open>10 \<notin> set ?w\<close> show False by simp
    qed
    then have "remove_empty_lines (c # remove_empty_lines r)
        = c # remove_empty_lines (remove_empty_lines r)"
      by (rule remove_empty_lines_no_match)
    moreover have "remove_empty_lines (c # r) = c # remove_empty_lines r"
      using False by (rule remove_empty_lines_no_match)
    ultimately show ?thesis using ih by (simp only:)
  qed
qed

lemma sample_remove_xml_tags:
  "remove_xml_tags sample_text = [10, 10] @ lit ''Hello  '' @ [10]"
  by (simp add: sample_text_def lit_def)

lemma sample_remove_empty_lines:
  "remove_empty_lines ([10, 10] @ lit ''Hello  '' @ [10]) = [10] @ lit ''Hello  '' @ [10]"
  by (simp add: lit_def isspace_def after_last_newline_def)

lemma sample_strip_lines:
  "strip_lines ([10] @ lit ''Hello  '' @ [10]) = [10] @ lit ''Hello''"
  by (simp add: strip_lines_def splitlines_def strip_def lit_def isspace_def is_linebreak_def)

text \<open>
  C8 as stated: tag stripping, then blank-line removal, then line trimming, applied to
  \<open>"<a>\n\nHello  \n</a>"\<close>, would yield \<open>"Hello"\<close>. It does not: the result differs from
  \<open>"Hello"\<close>.
\<close>

theorem cleanup_sample_not_Hello:
  "strip_lines (remove_empty_lines (remove_xml_tags sample_text)) \<noteq> lit ''Hello''"
  by (simp only: sample_remove_xml_tags sample_remove_empty_lines sample_strip_lines)
    (simp add: lit_def)

text \<open>
  C8, amended: tag stripping, then blank-line removal, then line trimming, applied to
  \<open>"<a>\n\nHello  \n</a>"\<close>, yields \<open>"\nHello"\<close>: the newline that followed the opening
  tag stays as a leading empty line.
\<close>

theorem cleanup_sample_result:
  "strip_lines (remove_empty_lines (remove_xml_tags sample_text)) = [10] @ lit ''Hello''"
  by (simp only: sample_remove_xml_tags sample_remove_empty_lines sample_strip_lines)

text \<open>
  The leading empty line is what \<open>remove_first_empty_line\<close>, the last step of the chain in
  \<open>process_tei\<close>, takes away.
\<close>

lemma cleanup_sample_first_line_removed:
  "remove_first_empty_line ([10] @ lit ''Hello'') = lit ''Hello''"
  by (simp add: remove_first_empty_line_def splitlines_def strip_def lit_def isspace_def
      is_linebreak_def)

section \<open>Properties of the TTL sweep\<close>

lemma map_of_fold_delete:
  "map_of (fold AList.delete pids st) k = (if k \<in> set pids then None else map_of st k)"
proof (induction pids arbitrary: st)
  case Nil
  show ?case by simp
next
  case (Cons p pids)
  show ?case by (simp add: Cons.IH delete_conv)
qed

lemma to_delete_set:
  "to_delete cutoff st = Inr pids \<Longrightarrow>
     set pids = {pid. \<exists>data. (pid, data) \<in> set st \<and> created_before data cutoff = Inr True}"
proof (induction st arbitrary: pids)
  case Nil
  then show ?case by simp
next
  case (Cons item st)
  obtain pid data where item: "item = (pid, data)" by (cases item)
  from Cons.prems item obtain old rest where
    old: "created_before data cutoff = Inr old" and
    rest: "to_delete cutoff st = Inr rest" and
    pids: "pids = (if old then pid # rest else rest)"
    by (auto split: sum.splits)
  from Cons.IH [OF rest] old pids item show ?case by auto
qed

lemma to_delete_total:
  "(\<And>pid data. (pid, data) \<in> set st \<Longrightarrow> \<exists>b. created_before data cutoff = Inr b) \<Longrightarrow>
     \<exists>pids. to_delete cutoff st = Inr pids"
proof (induction st)
  case Nil
  show ?case by simp
next
  case (Cons item st)
  obtain pid data where item: "item = (pid, data)" by (cases item)
  from Cons.prems [of pid data] item obtain b where "created_before data cutoff = Inr b"
    by auto
  moreover from Cons.IH Cons.prems obtain pids where "to_delete cutoff st = Inr pids"
    by auto
  ultimately show ?case using item by simp
qed

text \<open>
  The sweep returns (it does not raise) when every record's \<open>created_at\<close> is a float, as
  in every record that \<open>upload_image\<close> and \<open>create_tei\<close> create.
\<close>

lemma cleanup_old_entries_returns:
  assumes "\<And>pid data. (pid, data) \<in> set st \<Longrightarrow> \<exists>t. data ''created_at'' = Some (PyFloat t)"
  shows "\<exists>st'. cleanup_old_entries now st = Inr st'"
proof -
  have "\<exists>pids. to_delete (now - PROCESS_ENTRY_TTL) st = Inr pids"
  proof (rule to_delete_total)
    fix pid data
    assume "(pid, data) \<in> set st"
    from assms [OF this] show "\<exists>b. created_before data (now - PROCESS_ENTRY_TTL) = Inr b"
      by (auto simp: created_before_def)
  qed
  then show ?thesis by (auto simp: cleanup_old_entries_def)
qed

text \<open>
  C6 as stated: a record created at time \<open>T\<close> would be absent after a sweep invoked at any
  time \<open>\<ge> T + TTL\<close>. At exactly \<open>T + TTL\<close> (here \<open>T = 0\<close>, the sweep at 3600) the record is
  kept: the sweep leaves the store as it was.
\<close>

theorem sweep_at_ttl_keeps_record:
  "cleanup_old_entries (0 + PROCESS_ENTRY_TTL) store_one_job = Inr store_one_job"
  by (simp add: cleanup_old_entries_def store_one_job_def job_at_0_def created_before_def
      PROCESS_ENTRY_TTL_def)

text \<open>
  C6, amended: for every job record created at time \<open>T\<close> and every TTL sweep of the store:
  if the sweep is invoked at a time strictly greater than \<open>T + TTL\<close>, the record is absent
  after the sweep; if it is invoked at a time less than or equal to \<open>T + TTL\<close>, the record
  is still present (and unchanged) after the sweep.
\<close>

theorem sweep_ttl:
  assumes dict: "distinct (map fst st)"
    and rec: "map_of st pid = Some data"
    and created: "data ''created_at'' = Some (PyFloat T)"
    and sweep: "cleanup_old_entries now st = Inr st'"
  shows "(T + PROCESS_ENTRY_TTL < now \<longrightarrow> map_of st' pid = None)
       \<and> (now \<le> T + PROCESS_ENTRY_TTL \<longrightarrow> map_of st' pid = Some data)"
proof -
  let ?cutoff = "now - PROCESS_ENTRY_TTL"
  from sweep obtain pids where
    pids: "to_delete ?cutoff st = Inr pids" and
    st': "st' = fold AList.delete pids st"
    by (auto simp: cleanup_old_entries_def split: sum.splits)
  from rec have mem: "(pid, data) \<in> set st" by (rule map_of_SomeD)
  have only: "data' = data" if "(pid, data') \<in> set st" for data'
    using map_of_is_SomeI [OF dict that] rec by simp
  have old: "created_before data ?cutoff = Inr (T < ?cutoff)"
    using created by (simp add: created_before_def)
  have "pid \<in> set pids \<longleftrightarrow>
      (\<exists>d. (pid, d) \<in> set st \<and> created_before d ?cutoff = Inr True)"
    by (simp add: to_delete_set [OF pids])
  also have "\<dots> \<longleftrightarrow> created_before data ?cutoff = Inr True"
    using mem only by blast
  also have "\<dots> \<longleftrightarrow> T + PROCESS_ENTRY_TTL < now"
    by (simp add: old less_diff_eq)
  finally have swept: "pid \<in> set pids \<longleftrightarrow> T + PROCESS_ENTRY_TTL < now" .
  have "map_of st' pid = (if T + PROCESS_ENTRY_TTL < now then None else Some data)"
    by (simp add: st' map_of_fold_delete swept rec)
  then show ?thesis by (simp add: not_less)
qed

theorem sweep_ttl_witness:
  "distinct (map fst store_one_job)
   \<and> map_of store_one_job ''job-1'' = Some job_at_0
   \<and> job_at_0 ''created_at'' = Some (PyFloat 0)
   \<and> cleanup_old_entries 3601 store_one_job = Inr []
   \<and> cleanup_old_entries 3600 store_one_job = Inr store_one_job
   \<and> map_of [] ''job-1'' = (None :: job_record option)"
proof -
  have d: "distinct (map fst store_one_job)"
    by (simp add: store_one_job_def)
  have r: "map_of store_one_job ''job-1'' = Some job_at_0"
    by (simp add: store_one_job_def)
  have c: "job_at_0 ''created_at'' = Some (PyFloat 0)"
    by (simp add: job_at_0_def)
  have s1: "cleanup_old_entries 3601 store_one_job = Inr []"
    by (simp add: cleanup_old_entries_def store_one_job_def job_at_0_def created_before_def
        PROCESS_ENTRY_TTL_def AList.delete_eq)
  have s2: "cleanup_old_entries 3600 store_one_job = Inr store_one_job"
    by (simp add: cleanup_old_entries_def store_one_job_def job_at_0_def created_before_def
        PROCESS_ENTRY_TTL_def)
  have "map_of [] ''job-1'' = (None :: job_record option)"
    using sweep_ttl [OF d r c s1] by (simp add: PROCESS_ENTRY_TTL_def)
  with d r c s1 s2 show ?thesis by blast
qed

section \<open>Properties of the status poll with token refresh\<close>

lemma hist_emit: "hist (emit e st) = hist st @ [e]"
  by (simp add: emit_def)

lemma job_emit: "job (emit e st) = job st"
  by (simp add: emit_def)

lemma transkribus_login_eq:
  "transkribus_login nt u p st
     = (checked_json (login_reply nt (hist st) u p), emit (Login u p) st)"
  by (simp add: transkribus_login_def)

lemma checked_json_error:
  "raise_for_status r = Inl e \<Longrightarrow> checked_json (Response r) = Inl e"
  by (simp add: checked_json_def)

lemma raise_for_status_401:
  "status_code r = 401 \<Longrightarrow> raise_for_status r = Inl (HTTPError 401 (error_text r))"
  by (simp add: raise_for_status_def)

text \<open>The three outcomes of a poll whose first answer is a 401.\<close>

lemma retry_login_fails:
  assumes "status_reply nt (hist st) pid hdrs = Response r" and "status_code r = 401"
    and "checked_json (login_reply nt (hist (emit (GetStatus pid hdrs) st)) u p) = Inl e"
  shows "check_process_status_with_retry nt pid hdrs u p st
           = (Inl e, emit (Login u p) (emit (GetStatus pid hdrs) st))"
  using assms
  by (simp add: check_process_status_with_retry_def raise_for_status_401 transkribus_login_eq
      Let_def)

lemma retry_second_fails:
  assumes "status_reply nt (hist st) pid hdrs = Response r" and "status_code r = 401"
    and "checked_json (login_reply nt (hist (emit (GetStatus pid hdrs) st)) u p) = Inr tok"
    and "checked_json (status_reply nt (hist (emit (Login u p) (emit (GetStatus pid hdrs) st)))
            pid (bearer_headers tok)) = Inl e"
  shows "check_process_status_with_retry nt pid hdrs u p st
           = (Inl e, emit (GetStatus pid (bearer_headers tok))
                       (emit (Login u p) (emit (GetStatus pid hdrs) st)))"
  using assms
  by (simp add: check_process_status_with_retry_def raise_for_status_401 transkribus_login_eq
      Let_def)

lemma retry_second_succeeds:
  assumes "status_reply nt (hist st) pid hdrs = Response r" and "status_code r = 401"
    and "checked_json (login_reply nt (hist (emit (GetStatus pid hdrs) st)) u p) = Inr tok"
    and "checked_json (status_reply nt (hist (emit (Login u p) (emit (GetStatus pid hdrs) st)))
            pid (bearer_headers tok)) = Inr body"
  shows "check_process_status_with_retry nt pid hdrs u p st
           = (Inr (body, bearer_headers tok),
              emit (GetStatus pid (bearer_headers tok))
                (emit (Login u p) (emit (GetStatus pid hdrs) st)))"
  using assms
  by (simp add: check_process_status_with_retry_def raise_for_status_401 transkribus_login_eq
      Let_def)

lemma no_retry_other_error:
  assumes "status_reply nt (hist st) pid hdrs = Response r" and "status_code r \<noteq> 401"
    and "raise_for_status r = Inl e"
  shows "check_process_status_with_retry nt pid hdrs u p st
           = (Inl e, emit (GetStatus pid hdrs) st)"
  using assms by (simp add: check_process_status_with_retry_def Let_def)

lemma no_retry_no_response:
  assumes "status_reply nt (hist st) pid hdrs = NoResponse msg"
  shows "check_process_status_with_retry nt pid hdrs u p st
           = (Inl (RequestException msg), emit (GetStatus pid hdrs) st)"
  using assms by (simp add: check_process_status_with_retry_def Let_def)

text \<open>
  C4. When the status request fails with HTTP 401, the poll logs in again exactly once and
  repeats the status request exactly once, with the headers of the new token: the events
  of the call are the first request, one login and one second request. A failure of
  that second request, a second 401 included, is the exception the caller gets; so is a
  failure of the login, after which nothing is requested. Any other HTTP error of the
  first request, and a request without response, is raised at once: the first request
  is the only event.
\<close>

theorem check_process_status_retries_once:
  fixes nt :: net and st :: state
  assumes first: "status_reply nt (hist st) pid hdrs = rp"
  shows "(\<forall>r. rp = Response r \<and> status_code r = 401 \<longrightarrow>
            (\<forall>tok. checked_json (login_reply nt (hist st @ [GetStatus pid hdrs]) u p) = Inr tok \<longrightarrow>
               hist (snd (check_process_status_with_retry nt pid hdrs u p st))
                 = hist st @ [GetStatus pid hdrs, Login u p, GetStatus pid (bearer_headers tok)]
               \<and> (\<forall>e. checked_json (status_reply nt (hist st @ [GetStatus pid hdrs, Login u p])
                               pid (bearer_headers tok)) = Inl e \<longrightarrow>
                      fst (check_process_status_with_retry nt pid hdrs u p st) = Inl e)
               \<and> (\<forall>r2. status_reply nt (hist st @ [GetStatus pid hdrs, Login u p])
                               pid (bearer_headers tok) = Response r2 \<and> status_code r2 = 401 \<longrightarrow>
                      fst (check_process_status_with_retry nt pid hdrs u p st)
                        = Inl (HTTPError 401 (error_text r2)))
               \<and> (\<forall>body. checked_json (status_reply nt (hist st @ [GetStatus pid hdrs, Login u p])
                               pid (bearer_headers tok)) = Inr body \<longrightarrow>
                      fst (check_process_status_with_retry nt pid hdrs u p st)
                        = Inr (body, bearer_headers tok)))
            \<and> (\<forall>e. checked_json (login_reply nt (hist st @ [GetStatus pid hdrs]) u p) = Inl e \<longrightarrow>
                   hist (snd (check_process_status_with_retry nt pid hdrs u p st))
                     = hist st @ [GetStatus pid hdrs, Login u p]
                   \<and> fst (check_process_status_with_retry nt pid hdrs u p st) = Inl e))
       \<and> (\<forall>r e. rp = Response r \<and> status_code r \<noteq> 401 \<and> raise_for_status r = Inl e \<longrightarrow>
            hist (snd (check_process_status_with_retry nt pid hdrs u p st))
              = hist st @ [GetStatus pid hdrs]
            \<and> fst (check_process_status_with_retry nt pid hdrs u p st) = Inl e)
       \<and> (\<forall>msg. rp = NoResponse msg \<longrightarrow>
            hist (snd (check_process_status_with_retry nt pid hdrs u p st))
              = hist st @ [GetStatus pid hdrs]
            \<and> fst (check_process_status_with_retry nt pid hdrs u p st)
                = Inl (RequestException msg))"
proof (intro conjI allI impI)
  fix r tok
  assume a: "rp = Response r \<and> status_code r = 401"
    and l: "checked_json (login_reply nt (hist st @ [GetStatus pid hdrs]) u p) = Inr tok"
  from a first have f: "status_reply nt (hist st) pid hdrs = Response r" and c: "status_code r = 401"
    by simp_all
  from l have l': "checked_json (login_reply nt (hist (emit (GetStatus pid hdrs) st)) u p) = Inr tok"
    by (simp add: hist_emit)
  let ?second = "checked_json (status_reply nt (hist st @ [GetStatus pid hdrs, Login u p])
                    pid (bearer_headers tok))"
  have h2: "hist (emit (Login u p) (emit (GetStatus pid hdrs) st))
              = hist st @ [GetStatus pid hdrs, Login u p]"
    by (simp add: hist_emit)
  show "hist (snd (check_process_status_with_retry nt pid hdrs u p st))
          = hist st @ [GetStatus pid hdrs, Login u p, GetStatus pid (bearer_headers tok)]"
  proof (cases ?second)
    case (Inl e)
    then show ?thesis
      using retry_second_fails [OF f c l', of e] by (simp add: h2 hist_emit)
  next
    case (Inr body)
    then show ?thesis
      using retry_second_succeeds [OF f c l', of body] by (simp add: h2 hist_emit)
  qed
  {
    fix e
    assume "?second = Inl e"
    then show "fst (check_process_status_with_retry nt pid hdrs u p st) = Inl e"
      using retry_second_fails [OF f c l', of e] by (simp add: h2)
  }
  {
    fix r2
    assume "status_reply nt (hist st @ [GetStatus pid hdrs, Login u p]) pid (bearer_headers tok)
              = Response r2 \<and> status_code r2 = 401"
    then have "?second = Inl (HTTPError 401 (error_text r2))"
      by (simp add: checked_json_error raise_for_status_401)
    then show "fst (check_process_status_with_retry nt pid hdrs u p st)
                 = Inl (HTTPError 401 (error_text r2))"
      using retry_second_fails [OF f c l', of "HTTPError 401 (error_text r2)"] by (simp add: h2)
  }
  {
    fix body
    assume "?second = Inr body"
    then show "fst (check_process_status_with_retry nt pid hdrs u p st)
                 = Inr (body, bearer_headers tok)"
      using retry_second_succeeds [OF f c l', of body] by (simp add: h2)
  }
next
  fix r e
  assume a: "rp = Response r \<and> status_code r = 401"
    and l: "checked_json (login_reply nt (hist st @ [GetStatus pid hdrs]) u p) = Inl e"
  from a first have f: "status_reply nt (hist st) pid hdrs = Response r" and c: "status_code r = 401"
    by simp_all
  from l have l': "checked_json (login_reply nt (hist (emit (GetStatus pid hdrs) st)) u p) = Inl e"
    by (simp add: hist_emit)
  from retry_login_fails [OF f c l']
  show "hist (snd (check_process_status_with_retry nt pid hdrs u p st))
          = hist st @ [GetStatus pid hdrs, Login u p]"
    and "fst (check_process_status_with_retry nt pid hdrs u p st) = Inl e"
    by (simp_all add: hist_emit)
next
  fix r e
  assume a: "rp = Response r \<and> status_code r \<noteq> 401 \<and> raise_for_status r = Inl e"
  with first have "check_process_status_with_retry nt pid hdrs u p st
      = (Inl e, emit (GetStatus pid hdrs) st)"
    using no_retry_other_error [of nt st pid hdrs r e u p] by simp
  then show "hist (snd (check_process_status_with_retry nt pid hdrs u p st))
          = hist st @ [GetStatus pid hdrs]"
    and "fst (check_process_status_with_retry nt pid hdrs u p st) = Inl e"
    by (simp_all add: hist_emit)
next
  fix msg
  assume "rp = NoResponse msg"
  with first have "check_process_status_with_retry nt pid hdrs u p st
      = (Inl (RequestException msg), emit (GetStatus pid hdrs) st)"
    using no_retry_no_response [of nt st pid hdrs msg u p] by simp
  then show "hist (snd (check_process_status_with_retry nt pid hdrs u p st))
          = hist st @ [GetStatus pid hdrs]"
    and "fst (check_process_status_with_retry nt pid hdrs u p st) = Inl (RequestException msg)"
    by (simp_all add: hist_emit)
qed

theorem check_process_status_retries_once_witness:
  "status_reply net_always_401 (hist state0) (lit ''p0'') (bearer_headers (Some (lit ''old'')))
     = Response unauthorized
   \<and> status_code unauthorized = 401
   \<and> checked_json (login_reply net_always_401
         (hist state0 @ [GetStatus (lit ''p0'') (bearer_headers (Some (lit ''old'')))])
         (lit ''user'') (lit ''secret'')) = Inr (Some (lit ''new''))
   \<and> hist (snd (check_process_status_with_retry net_always_401 (lit ''p0'')
               (bearer_headers (Some (lit ''old''))) (lit ''user'') (lit ''secret'') state0))
       = hist state0 @ [GetStatus (lit ''p0'') (bearer_headers (Some (lit ''old''))),
                        Login (lit ''user'') (lit ''secret''),
                        GetStatus (lit ''p0'') (bearer_headers (Some (lit ''new'')))]
   \<and> fst (check_process_status_with_retry net_always_401 (lit ''p0'')
               (bearer_headers (Some (lit ''old''))) (lit ''user'') (lit ''secret'') state0)
       = Inl (HTTPError 401 (error_text unauthorized))"
proof -
  let ?old = "bearer_headers (Some (lit ''old''))"
  let ?new = "bearer_headers (Some (lit ''new''))"
  let ?run = "check_process_status_with_retry net_always_401 (lit ''p0'') ?old
                (lit ''user'') (lit ''secret'') state0"
  have a: "status_reply net_always_401 (hist state0) (lit ''p0'') ?old = Response unauthorized
           \<and> status_code unauthorized = 401"
    by (simp add: net_always_401_def unauthorized_def)
  have l: "checked_json (login_reply net_always_401 (hist state0 @ [GetStatus (lit ''p0'') ?old])
             (lit ''user'') (lit ''secret'')) = Inr (Some (lit ''new''))"
    by (simp add: net_always_401_def checked_json_def raise_for_status_def ok_response_def)
  have s: "status_reply net_always_401
             (hist state0 @ [GetStatus (lit ''p0'') ?old, Login (lit ''user'') (lit ''secret'')])
             (lit ''p0'') ?new = Response unauthorized \<and> status_code unauthorized = 401"
    by (simp add: net_always_401_def unauthorized_def)
  note T = check_process_status_retries_once [where nt = net_always_401 and st = state0
      and pid = "lit ''p0''" and hdrs = ?old and u = "lit ''user''" and p = "lit ''secret''",
      OF refl]
  from T a l have
    "hist (snd ?run) = hist state0 @ [GetStatus (lit ''p0'') ?old,
        Login (lit ''user'') (lit ''secret''), GetStatus (lit ''p0'') ?new]"
    by blast
  moreover from T a l s have "fst ?run = Inl (HTTPError 401 (error_text unauthorized))"
    by blast
  ultimately show ?thesis using a l by blast
qed

section \<open>Properties of the polling loop\<close>



lemma lit_FINISHED_ERROR: "lit ''FINISHED'' \<noteq> lit ''ERROR''"
  by (simp add: lit_def)



lemma check_retry_frame:
  assumes "check_process_status_with_retry nt pid hdrs u p st = (r, st')"
  shows "job st' = job st \<and> (\<exists>evs. hist st' = hist st @ evs \<and> list_all is_request evs)"
  using assms
  by (auto simp: check_process_status_with_retry_def transkribus_login_def emit_def Let_def
      split: reply.splits sum.splits if_splits prod.splits)

lemma poll_page_cases:
  assumes "poll_page nt u p tp (i, pid) ps st = (res, st')"
  obtains
    (out_of_range) "length (results ps) \<le> i" "\<exists>e. res = Inl e" "st' = st"
  | (known) "i < length (results ps)" "results ps ! i \<noteq> None" "res = Inr ps" "st' = st"
  | (failed) e where "i < length (results ps)" "results ps ! i = None"
      "check_process_status_with_retry nt pid (auth_headers ps) u p st = (Inl e, st')"
      "res = Inl e"
  | (no_text) body hd where "i < length (results ps)" "results ps ! i = None"
      "check_process_status_with_retry nt pid (auth_headers ps) u p st = (Inr (body, hd), st')"
      "\<exists>e. res = Inl e"
  | (finished) body hd st1 t where "i < length (results ps)" "results ps ! i = None"
      "check_process_status_with_retry nt pid (auth_headers ps) u p st = (Inr (body, hd), st1)"
      "status body = Some (lit ''FINISHED'')" "content_text body = Some t"
      "res = Inr \<lparr>results = (results ps)[i := Some t],
                  finished_count = finished_count ps + 1, auth_headers = hd\<rparr>"
      "st' = set_field ''status'' (PyStr (finished_message (finished_count ps + 1) tp)) st1"
  | (error) body hd st1 where "i < length (results ps)" "results ps ! i = None"
      "check_process_status_with_retry nt pid (auth_headers ps) u p st = (Inr (body, hd), st1)"
      "status body = Some (lit ''ERROR'')"
      "res = Inl (page_failed i)"
      "st' = set_field ''transkribus_status'' (PyStr (lit ''ERROR''))
               (set_field ''status'' (PyStr (page_error_message i)) st1)"
  | (running) body hd where "i < length (results ps)" "results ps ! i = None"
      "check_process_status_with_retry nt pid (auth_headers ps) u p st = (Inr (body, hd), st')"
      "status body \<noteq> Some (lit ''FINISHED'')" "status body \<noteq> Some (lit ''ERROR'')"
      "res = Inr (ps\<lparr>auth_headers := hd\<rparr>)"
proof (cases "length (results ps) \<le> i")
  case True
  with assms show ?thesis by (intro out_of_range) (auto simp: poll_page_def)
next
  case False
  then have lt: "i < length (results ps)" by simp
  show ?thesis
  proof (cases "results ps ! i = None")
    case False
    with lt assms show ?thesis by (intro known) (auto simp: poll_page_def)
  next
    case True
    obtain r st1 where chk:
      "check_process_status_with_retry nt pid (auth_headers ps) u p st = (r, st1)"
      by (cases "check_process_status_with_retry nt pid (auth_headers ps) u p st")
    show ?thesis
    proof (cases r)
      case (Inl e)
      with lt True chk assms show ?thesis by (intro failed [of e]) (auto simp: poll_page_def)
    next
      case (Inr bh)
      obtain body hd where bh: "bh = (body, hd)" by (cases bh)
      show ?thesis
      proof (cases "status body = Some (lit ''FINISHED'')")
        case fin: True
        show ?thesis
        proof (cases "content_text body")
          case None
          with fin lt True chk Inr bh assms show ?thesis
            by (intro no_text [of body hd])
              (auto simp: poll_page_def get_process_result_def lit_FINISHED_ERROR)
        next
          case (Some t)
          with fin lt True chk Inr bh assms show ?thesis
            by (intro finished [of body hd st1 t])
              (auto simp: poll_page_def get_process_result_def lit_FINISHED_ERROR)
        qed
      next
        case nfin: False
        show ?thesis
        proof (cases "status body = Some (lit ''ERROR'')")
          case True
          with nfin lt \<open>results ps ! i = None\<close> chk Inr bh assms show ?thesis
            by (intro error [of body hd st1]) (auto simp: poll_page_def)
        next
          case False
          with nfin lt True chk Inr bh assms show ?thesis
            by (intro running [of body hd]) (auto simp: poll_page_def)
        qed
      qed
    qed
  qed
qed






















section \<open>What the recognition pipeline writes, and when\<close>

lemma replay_append: "replay (xs @ ys) data = replay ys (replay xs data)"
proof (induction xs arbitrary: data)
  case Nil
  show ?case by simp
next
  case (Cons e xs)
  show ?case by (cases e) (simp_all add: Cons.IH fun_upd_def)
qed

lemma steps_refl: "steps st st []"
  by (simp add: steps_def)

lemma steps_trans: "steps a b xs \<Longrightarrow> steps b c ys \<Longrightarrow> steps a c (xs @ ys)"
  by (simp add: steps_def replay_append)

lemma steps_set_field: "steps st (set_field k v st) [SetField k v]"
  by (simp add: steps_def set_field_def)

lemma steps_emit: "\<not> is_write e \<Longrightarrow> steps st (emit e st) [e]"
  by (cases e) (simp_all add: steps_def emit_def)

lemma steps_extend_results:
  "extend_results prs st = Inr st' \<Longrightarrow> steps st st' [ExtendResults prs]"
  by (auto simp: extend_results_def steps_def split: option.splits pyval.splits)

lemma quiet_steps_refl: "quiet_steps st st"
  unfolding quiet_steps_def by (rule exI [where x = "[]"]) (simp add: steps_refl)

lemma quiet_steps_trans: "quiet_steps a b \<Longrightarrow> quiet_steps b c \<Longrightarrow> quiet_steps a c"
  unfolding quiet_steps_def by (metis steps_trans list_all_append)

lemma not_write_quiet: "\<not> is_write e \<Longrightarrow> quiet e"
  by (cases e) simp_all

lemma quiet_steps_emit: "\<not> is_write e \<Longrightarrow> quiet_steps st (emit e st)"
  unfolding quiet_steps_def
  by (rule exI [where x = "[e]"]) (simp add: steps_emit not_write_quiet)

lemma quiet_steps_status: "quiet_steps st (set_field ''status'' v st)"
  unfolding quiet_steps_def by (rule exI [where x = "[SetField ''status'' v]"]) (simp add: steps_set_field)

lemma quiet_steps_transkribus_status: "quiet_steps st (set_field ''transkribus_status'' v st)"
  unfolding quiet_steps_def
  by (rule exI [where x = "[SetField ''transkribus_status'' v]"]) (simp add: steps_set_field)

lemma quiet_steps_mllm_status: "quiet_steps st (set_field ''mllm_status'' v st)"
  unfolding quiet_steps_def
  by (rule exI [where x = "[SetField ''mllm_status'' v]"]) (simp add: steps_set_field)

lemma quiet_steps_then_status:
  "quiet_steps st st1 \<Longrightarrow> quiet_steps st (set_field ''status'' v st1)"
  by (erule quiet_steps_trans) (rule quiet_steps_status)

lemma quiet_login:
  "transkribus_login nt u p st = (r, st') \<Longrightarrow> quiet_steps st st'"
  by (auto simp: transkribus_login_def intro: quiet_steps_emit)

lemma quiet_start_recognition:
  "start_recognition_process nt tok img tm st = (r, st') \<Longrightarrow> quiet_steps st st'"
  by (auto simp: start_recognition_process_def Let_def intro: quiet_steps_emit
      split: sum.splits option.splits)

lemma quiet_start_jobs:
  "start_jobs nt tok tm images acc hdrs st = (r, st') \<Longrightarrow> quiet_steps st st'"
proof (induction images arbitrary: acc hdrs st)
  case Nil
  then show ?case by (simp add: quiet_steps_refl)
next
  case (Cons img images)
  obtain r1 st1 where one: "start_recognition_process nt tok img tm st = (r1, st1)"
    by (cases "start_recognition_process nt tok img tm st")
  note q1 = quiet_start_recognition [OF one]
  show ?case
  proof (cases r1)
    case (Inl e)
    with Cons.prems one q1 show ?thesis by simp
  next
    case (Inr ph)
    obtain pid h1 where "ph = (pid, h1)" by (cases ph)
    with Cons.prems one Inr have "start_jobs nt tok tm images (acc @ [pid]) h1 st1 = (r, st')"
      by simp
    from quiet_steps_trans [OF q1 Cons.IH [OF this]] show ?thesis .
  qed
qed

lemma quiet_start_transkribus_jobs:
  assumes "start_transkribus_jobs nt cfg images tm mode st = (r, st')"
  shows "quiet_steps st st'"
proof -
  let ?u = "if mode = lit ''RA'' then USERNAME_TRANSKRIBUS_RA cfg else USERNAME_TRANSKRIBUS_GL cfg"
  let ?p = "if mode = lit ''RA'' then PASSWORD_TRANSKRIBUS_RA cfg else PASSWORD_TRANSKRIBUS_GL cfg"
  obtain r1 st1 where login: "transkribus_login nt ?u ?p st = (r1, st1)"
    by (cases "transkribus_login nt ?u ?p st")
  note q1 = quiet_login [OF login]
  show ?thesis
  proof (cases r1)
    case (Inl e)
    with assms login q1 show ?thesis by (simp add: start_transkribus_jobs_def Let_def)
  next
    case (Inr tok)
    obtain r2 st2 where jobs: "start_jobs nt tok tm images [] [] st1 = (r2, st2)"
      by (cases "start_jobs nt tok tm images [] [] st1")
    from assms login Inr jobs have "st' = st2"
      by (auto simp: start_transkribus_jobs_def Let_def split: sum.splits)
    with quiet_steps_trans [OF q1 quiet_start_jobs [OF jobs]] show ?thesis by simp
  qed
qed

lemma requests_quiet:
  "list_all is_request evs \<Longrightarrow> list_all quiet evs \<and> replay evs data = data"
proof (induction evs)
  case Nil
  show ?case by simp
next
  case (Cons e evs)
  then show ?case by (cases e) simp_all
qed

lemma quiet_check_retry:
  assumes "check_process_status_with_retry nt pid hdrs u p st = (r, st')"
  shows "quiet_steps st st'"
proof -
  from check_retry_frame [OF assms] obtain evs where
    j: "job st' = job st" and h: "hist st' = hist st @ evs" and rq: "list_all is_request evs"
    by blast
  from requests_quiet [OF rq, of "job st"] j h show ?thesis
    by (auto simp: quiet_steps_def steps_def)
qed

lemma quiet_poll_page:
  assumes "poll_page nt u p tp (i, pid) ps st = (res, st')"
  shows "quiet_steps st st'"
  using assms
proof (cases rule: poll_page_cases)
  case out_of_range
  then show ?thesis by (simp add: quiet_steps_refl)
next
  case known
  then show ?thesis by (simp add: quiet_steps_refl)
next
  case (failed e)
  then show ?thesis by (simp add: quiet_check_retry)
next
  case (no_text body hd)
  then show ?thesis by (simp add: quiet_check_retry)
next
  case (finished body hd st1 t)
  from quiet_check_retry [OF finished(3)] show ?thesis
    unfolding finished(7) by (rule quiet_steps_then_status)
next
  case (error body hd st1)
  from quiet_check_retry [OF error(3)] have "quiet_steps st (set_field ''status''
      (PyStr (page_error_message i)) st1)"
    by (rule quiet_steps_then_status)
  then show ?thesis
    unfolding error(6) by (rule quiet_steps_trans) (rule quiet_steps_transkribus_status)
next
  case (running body hd)
  then show ?thesis by (simp add: quiet_check_retry)
qed

lemma quiet_poll_pages:
  "poll_pages nt u p tp items ps st = (res, st') \<Longrightarrow> quiet_steps st st'"
proof (induction items arbitrary: ps st)
  case Nil
  then show ?case by (simp add: quiet_steps_refl)
next
  case (Cons item items)
  obtain i pid where item: "item = (i, pid)" by (cases item)
  obtain r st1 where step: "poll_page nt u p tp (i, pid) ps st = (r, st1)"
    by (cases "poll_page nt u p tp (i, pid) ps st")
  note q1 = quiet_poll_page [OF step]
  show ?case
  proof (cases r)
    case (Inl e)
    with Cons.prems item step q1 show ?thesis by simp
  next
    case (Inr ps1)
    with Cons.prems item step have "poll_pages nt u p tp items ps1 st1 = (res, st')" by simp
    from quiet_steps_trans [OF q1 Cons.IH [OF this]] show ?thesis .
  qed
qed

lemma quiet_poll_rounds:
  "poll_rounds fuel nt u p tp pids d ps st = Some (res, st') \<Longrightarrow> quiet_steps st st'"
proof (induction fuel arbitrary: d ps st)
  case 0
  then show ?case by (auto simp: quiet_steps_refl split: if_splits)
next
  case (Suc fuel)
  show ?case
  proof (cases "finished_count ps < tp")
    case False
    with Suc.prems show ?thesis by (simp add: quiet_steps_refl)
  next
    case True
    obtain r st1 where round:
      "poll_pages nt u p tp (enumerate 0 pids) ps (emit (Sleep d) st) = (r, st1)"
      by (cases "poll_pages nt u p tp (enumerate 0 pids) ps (emit (Sleep d) st)")
    have "quiet_steps st (emit (Sleep d) st)" by (rule quiet_steps_emit) simp
    from quiet_steps_trans [OF this quiet_poll_pages [OF round]] have q1: "quiet_steps st st1" .
    show ?thesis
    proof (cases r)
      case (Inl e)
      with Suc.prems True round q1 show ?thesis by simp
    next
      case (Inr ps1)
      with Suc.prems True round have
        "poll_rounds fuel nt u p tp pids (min (d * (3 / 2)) 30) ps1 st1 = Some (res, st')"
        by simp
      from quiet_steps_trans [OF q1 Suc.IH [OF this]] show ?thesis .
    qed
  qed
qed

lemma quiet_poll_transkribus_jobs:
  "poll_transkribus_jobs fuel nt pids hdrs u p tp st = Some (res, st') \<Longrightarrow> quiet_steps st st'"
  unfolding poll_transkribus_jobs_def by (rule quiet_poll_rounds)

lemma quiet_merge_pages:
  "merge_pages idxs nt images acc trs mrs model temp mode st = (res, st') \<Longrightarrow> quiet_steps st st'"
proof (induction idxs arbitrary: acc st)
  case Nil
  then show ?case by (simp add: quiet_steps_refl)
next
  case (Cons i idxs)
  have q1: "quiet_steps st (emit (MergeCall i) st)" by (rule quiet_steps_emit) simp
  show ?case
  proof (cases "length trs \<le> i \<or> length mrs \<le> i \<or> length images \<le> i")
    case True
    with Cons.prems show ?thesis by (simp add: quiet_steps_refl)
  next
    case False
    show ?thesis
    proof (cases "merged_atr_mllm_result nt (hist st) model (trs ! i) (mrs ! i) (images ! i) temp mode")
      case (Inl e)
      with Cons.prems False q1 show ?thesis by simp
    next
      case (Inr merged)
      with Cons.prems False have "merge_pages idxs nt images
          (acc @ [\<lparr>page = i, mllm_merged_result = merged, ocr_engine_result = trs ! i,
                   mllm_only_result = mrs ! i\<rparr>]) trs mrs model temp mode (emit (MergeCall i) st)
          = (res, st')"
        by simp
      from quiet_steps_trans [OF q1 Cons.IH [OF this]] show ?thesis .
    qed
  qed
qed

lemma quiet_merge_page_results:
  "merge_page_results nt images trs mrs model temp mode st = (res, st') \<Longrightarrow> quiet_steps st st'"
  unfolding merge_page_results_def
  by (rule quiet_steps_trans [OF quiet_steps_status quiet_merge_pages])

lemma no_workers: "min (length images) MAX_MLLM_WORKERS = 0 \<longleftrightarrow> images = []"
  by (cases images) (simp_all add: MAX_MLLM_WORKERS_def)

text \<open>
  The two ways out of the \<open>try\<close> block of \<open>process_ocr\<close>: an exception, after events that
  only report progress; or the normal end, with the polling, the futures, the merge and
  the one extension of \<open>results\<close> behind it.
\<close>

lemma process_ocr_try_cases:
  assumes run: "process_ocr_try fuel completion nt cfg images tm model temp mode st
                  = Some (res, st')"
  obtains
    (raised) e where "res = Inl e" "quiet_steps st st'"
  | (returned) pids hdrs user pw st1 st2 st3 trs st4 mrs st6 prs st7 st8 where
      "res = Inr ()"
      "quiet_steps st st1"
      "start_transkribus_jobs nt cfg images tm mode st1 = (Inr (pids, hdrs, user, pw), st2)"
      "quiet_steps st2 st3"
      "poll_transkribus_jobs fuel nt pids hdrs user pw (length images) st3 = Some (Inr trs, st4)"
      "future_results (mllm_futures nt completion model images temp mode) = Some (Inr mrs)"
      "quiet_steps st4 st6"
      "merge_page_results nt images trs mrs model temp mode st6 = (Inr prs, st7)"
      "quiet_steps st st7"
      "extend_results prs st7 = Inr st8"
      "st' = set_field ''mllm_status'' (PyStr (lit ''FINISHED''))
               (set_field ''transkribus_status'' (PyStr (lit ''FINISHED''))
                  (set_field ''status'' (PyStr (lit ''Verarbeitung abgeschlossen'')) st8))"
proof -
  let ?st1 = "set_field ''status''
      (PyStr (lit ''Texterkennung f'' @ [252] @ lit ''r '' @ str_nat (length images)
              @ lit '' Seite(n) wird gestartet...'')) st"
  have q1: "quiet_steps st ?st1" by (rule quiet_steps_status)
  obtain r2 st2 where start: "start_transkribus_jobs nt cfg images tm mode ?st1 = (r2, st2)"
    by (cases "start_transkribus_jobs nt cfg images tm mode ?st1")
  note q2 = quiet_steps_trans [OF q1 quiet_start_transkribus_jobs [OF start]]
  show ?thesis
  proof (cases r2)
    case (Inl e)
    with run start have "res = Inl e" "st' = st2"
      by (simp_all add: process_ocr_try_def Let_def no_workers split: if_splits)
    with q2 show ?thesis by (intro raised [of e]) simp_all
  next
    case (Inr quad)
    obtain pids hdrs user pw where quad: "quad = (pids, hdrs, user, pw)" by (cases quad)
    let ?st3 = "set_field ''transkribus_status'' (PyStr (lit ''RUNNING''))
        (set_field ''status''
           (PyStr (lit ''Texterkennung f'' @ [252] @ lit ''r alle '' @ str_nat (length images)
                   @ lit '' Seite(n) l'' @ [228] @ lit ''uft parallel...'')) st2)"
    have q23: "quiet_steps st2 ?st3"
      by (rule quiet_steps_trans [OF quiet_steps_status quiet_steps_transkribus_status])
    note q3 = quiet_steps_trans [OF q2 q23]
    let ?futures = "mllm_futures nt completion model images temp mode"
    show ?thesis
    proof (cases "images = []")
      case True
      with run start Inr quad have "res = Inl (ValueError (lit ''max_workers must be greater than 0''))"
        "st' = ?st3"
        by (simp_all add: process_ocr_try_def Let_def no_workers split: if_splits)
      with q3 show ?thesis by (intro raised) simp_all
    next
      case workers: False
      from run start Inr quad workers obtain pr where
        poll: "poll_transkribus_jobs fuel nt pids hdrs user pw (length images) ?st3 = Some pr"
        by (cases "poll_transkribus_jobs fuel nt pids hdrs user pw (length images) ?st3")
          (simp_all add: process_ocr_try_def Let_def no_workers split: if_splits)
      obtain r4 st4 where pr: "pr = (r4, st4)" by (cases pr)
      note q4 = quiet_steps_trans [OF q3 quiet_poll_transkribus_jobs [OF poll [unfolded pr]]]
      show ?thesis
      proof (cases r4)
        case (Inl e)
        with run start Inr quad workers poll pr have "res = Inl e" "st' = st4"
          by (simp_all add: process_ocr_try_def Let_def no_workers split: if_splits)
        with q4 show ?thesis by (intro raised [of e]) simp_all
      next
        case polled: (Inr trs)
        let ?st5 = "set_field ''status''
            (PyStr (lit ''Auf Ergebnisse des multimodalen Modells warten...'')) st4"
        have q5: "quiet_steps st ?st5" using q4 by (rule quiet_steps_then_status)
        from run start Inr quad workers poll pr polled obtain fr where
          fut: "future_results ?futures = Some fr"
          by (cases "future_results ?futures")
            (simp_all add: process_ocr_try_def Let_def no_workers split: if_splits)
        show ?thesis
        proof (cases fr)
          case (Inl e)
          with run start Inr quad workers poll pr polled fut have "res = Inl e" "st' = ?st5"
            by (simp_all add: process_ocr_try_def Let_def no_workers split: if_splits)
          with q5 show ?thesis by (intro raised [of e]) simp_all
        next
          case collected: (Inr mrs)
          let ?st6 = "set_field ''mllm_status'' (PyStr (lit ''FINISHED''))
              (set_field ''transkribus_status'' (PyStr (lit ''FINISHED'')) ?st5)"
          have q46: "quiet_steps st4 ?st6"
            by (rule quiet_steps_trans [OF quiet_steps_status
                  quiet_steps_trans [OF quiet_steps_transkribus_status quiet_steps_mllm_status]])
          note q6 = quiet_steps_trans [OF q4 q46]
          obtain r7 st7 where merge:
            "merge_page_results nt images trs mrs model temp mode ?st6 = (r7, st7)"
            by (cases "merge_page_results nt images trs mrs model temp mode ?st6")
          note q7 = quiet_steps_trans [OF q6 quiet_merge_page_results [OF merge]]
          show ?thesis
          proof (cases r7)
            case (Inl e)
            with run start Inr quad workers poll pr polled fut collected merge
            have "res = Inl e" "st' = st7"
              by (simp_all add: process_ocr_try_def Let_def no_workers split: if_splits)
            with q7 show ?thesis by (intro raised [of e]) simp_all
          next
            case merged: (Inr prs)
            show ?thesis
            proof (cases "extend_results prs st7")
              case (Inl e)
              with run start Inr quad workers poll pr polled fut collected merge merged
              have "res = Inl e" "st' = st7"
                by (simp_all add: process_ocr_try_def Let_def no_workers split: if_splits)
              with q7 show ?thesis by (intro raised [of e]) simp_all
            next
              case extended: (Inr st8)
              with run start Inr quad workers poll pr polled fut collected merge merged
              have "res = Inr ()"
                "st' = set_field ''mllm_status'' (PyStr (lit ''FINISHED''))
                   (set_field ''transkribus_status'' (PyStr (lit ''FINISHED''))
                      (set_field ''status'' (PyStr (lit ''Verarbeitung abgeschlossen'')) st8))"
                by (simp_all add: process_ocr_try_def Let_def no_workers split: if_splits)
              with q1 start Inr quad q23 poll pr polled fut collected q46 merge merged extended q7
              show ?thesis
                by (intro returned [of ?st1 pids hdrs user pw st2 ?st3 trs st4 mrs ?st6 prs st7 st8])
                  simp_all
            qed
          qed
        qed
      qed
    qed
  qed
qed

section \<open>The results of a recognition job\<close>














lemma merge_pages_result:
  "merge_pages idxs nt images acc trs mrs model temp mode st = (Inr prs, st') \<Longrightarrow>
     length prs = length acc + length idxs
     \<and> take (length acc) prs = acc
     \<and> (\<forall>j < length idxs.
           page (prs ! (length acc + j)) = idxs ! j
           \<and> ocr_engine_result (prs ! (length acc + j)) = trs ! (idxs ! j)
           \<and> mllm_only_result (prs ! (length acc + j)) = mrs ! (idxs ! j)
           \<and> (\<exists>h. merged_atr_mllm_result nt h model (trs ! (idxs ! j)) (mrs ! (idxs ! j))
                     (images ! (idxs ! j)) temp mode
                   = Inr (mllm_merged_result (prs ! (length acc + j)))))"
proof (induction idxs arbitrary: acc st)
  case Nil
  then show ?case by simp
next
  case (Cons i idxs)
  from Cons.prems have inrange:
    "\<not> (length trs \<le> i \<or> length mrs \<le> i \<or> length images \<le> i)"
    by (auto split: if_splits)
  with Cons.prems obtain merged where
    m: "merged_atr_mllm_result nt (hist st) model (trs ! i) (mrs ! i) (images ! i) temp mode
          = Inr merged"
    by (cases "merged_atr_mllm_result nt (hist st) model (trs ! i) (mrs ! i) (images ! i) temp mode")
      auto
  let ?entry = "\<lparr>page = i, mllm_merged_result = merged, ocr_engine_result = trs ! i,
                  mllm_only_result = mrs ! i\<rparr>"
  from Cons.prems inrange m have rest:
    "merge_pages idxs nt images (acc @ [?entry]) trs mrs model temp mode (emit (MergeCall i) st)
       = (Inr prs, st')"
    by simp
  from Cons.IH [OF rest] have len: "length prs = length acc + 1 + length idxs"
    and pre: "take (length acc + 1) prs = acc @ [?entry]"
    and later: "\<forall>j < length idxs.
           page (prs ! (length acc + 1 + j)) = idxs ! j
           \<and> ocr_engine_result (prs ! (length acc + 1 + j)) = trs ! (idxs ! j)
           \<and> mllm_only_result (prs ! (length acc + 1 + j)) = mrs ! (idxs ! j)
           \<and> (\<exists>h. merged_atr_mllm_result nt h model (trs ! (idxs ! j)) (mrs ! (idxs ! j))
                     (images ! (idxs ! j)) temp mode
                   = Inr (mllm_merged_result (prs ! (length acc + 1 + j))))"
    by simp_all
  have "prs ! length acc = take (length acc + 1) prs ! length acc" by simp
  also have "\<dots> = ?entry" by (simp only: pre nth_append_length)
  finally have here: "prs ! length acc = ?entry" .
  have "take (length acc) prs = take (length acc) (take (length acc + 1) prs)"
    by (simp add: min_def)
  also have "\<dots> = acc" by (simp only: pre) simp
  finally have acc: "take (length acc) prs = acc" .
  have "page (prs ! (length acc + j)) = (i # idxs) ! j
        \<and> ocr_engine_result (prs ! (length acc + j)) = trs ! ((i # idxs) ! j)
        \<and> mllm_only_result (prs ! (length acc + j)) = mrs ! ((i # idxs) ! j)
        \<and> (\<exists>h. merged_atr_mllm_result nt h model (trs ! ((i # idxs) ! j)) (mrs ! ((i # idxs) ! j))
                  (images ! ((i # idxs) ! j)) temp mode
                = Inr (mllm_merged_result (prs ! (length acc + j))))"
    if "j < length (i # idxs)" for j
  proof (cases j)
    case 0
    with here m show ?thesis by auto
  next
    case (Suc j')
    with that later show ?thesis by simp
  qed
  with len acc show ?case by simp
qed

lemma merge_page_results_aligned:
  assumes "merge_page_results nt images trs mrs model temp mode st = (Inr prs, st')"
  shows "length prs = length images
       \<and> (\<forall>i < length images.
             page (prs ! i) = i
             \<and> ocr_engine_result (prs ! i) = trs ! i
             \<and> mllm_only_result (prs ! i) = mrs ! i
             \<and> (\<exists>h. merged_atr_mllm_result nt h model (trs ! i) (mrs ! i) (images ! i) temp mode
                     = Inr (mllm_merged_result (prs ! i))))"
  using merge_pages_result [OF assms [unfolded merge_page_results_def]] by simp

lemma replay_quiet_key:
  "list_all quiet evs \<Longrightarrow> k \<noteq> ''status'' \<Longrightarrow> k \<noteq> ''transkribus_status'' \<Longrightarrow>
   k \<noteq> ''mllm_status'' \<Longrightarrow> replay evs data k = data k"
proof (induction evs arbitrary: data)
  case Nil
  show ?case by simp
next
  case (Cons e evs)
  then show ?case by (cases e) auto
qed


lemma process_ocr_events:
  assumes run: "process_ocr fuel completion nt cfg images tm model temp mode st = Some st'"
  obtains
    (failed) before e where
      "steps st st' (before @ [SetField ''status'' (PyStr (lit ''Fehler: '' @ e)),
                               SetField ''error'' (PyStr e)])"
      "list_all quiet before"
  | (succeeded) before prs where
      "steps st st' (before @ [ExtendResults prs,
          SetField ''status'' (PyStr (lit ''Verarbeitung abgeschlossen'')),
          SetField ''transkribus_status'' (PyStr (lit ''FINISHED'')),
          SetField ''mllm_status'' (PyStr (lit ''FINISHED''))])"
      "list_all quiet before"
      "length prs = length images"
      "process_ocr_try fuel completion nt cfg images tm model temp mode st = Some (Inr (), st')"
proof -
  from run obtain res st1 where
    body: "process_ocr_try fuel completion nt cfg images tm model temp mode st = Some (res, st1)"
    by (cases "process_ocr_try fuel completion nt cfg images tm model temp mode st")
      (auto simp: process_ocr_def)
  from body show ?thesis
  proof (cases rule: process_ocr_try_cases)
    case (raised e)
    from raised(2) obtain before where b: "steps st st1 before" "list_all quiet before"
      by (auto simp: quiet_steps_def)
    from run body raised(1) have st': "st' = set_field ''error'' (PyStr (str_exn e))
        (set_field ''status'' (PyStr (lit ''Fehler: '' @ str_exn e)) st1)"
      by (simp add: process_ocr_def)
    have "steps st1 st' [SetField ''status'' (PyStr (lit ''Fehler: '' @ str_exn e)),
                         SetField ''error'' (PyStr (str_exn e))]"
      unfolding st' using steps_trans [OF steps_set_field steps_set_field] by simp
    from steps_trans [OF b(1) this] b(2) show ?thesis by (rule failed)
  next
    case (returned pids hdrs user pw s1 s2 s3 trs s4 mrs s6 prs s7 s8)
    from returned(9) obtain before where b: "steps st s7 before" "list_all quiet before"
      by (auto simp: quiet_steps_def)
    from run body returned(1) have st': "st' = st1" by (simp add: process_ocr_def)
    have "steps s7 (set_field ''mllm_status'' (PyStr (lit ''FINISHED''))
               (set_field ''transkribus_status'' (PyStr (lit ''FINISHED''))
                  (set_field ''status'' (PyStr (lit ''Verarbeitung abgeschlossen'')) s8)))
          [ExtendResults prs,
           SetField ''status'' (PyStr (lit ''Verarbeitung abgeschlossen'')),
           SetField ''transkribus_status'' (PyStr (lit ''FINISHED'')),
           SetField ''mllm_status'' (PyStr (lit ''FINISHED''))]"
      using steps_trans [OF steps_trans [OF steps_trans [OF
            steps_extend_results [OF returned(10)] steps_set_field] steps_set_field]
          steps_set_field]
      by simp
    then have "steps s7 st1 [ExtendResults prs,
          SetField ''status'' (PyStr (lit ''Verarbeitung abgeschlossen'')),
          SetField ''transkribus_status'' (PyStr (lit ''FINISHED'')),
          SetField ''mllm_status'' (PyStr (lit ''FINISHED''))]"
      by (simp only: returned(11))
    from steps_trans [OF b(1) this] b body returned(1) st'
      merge_page_results_aligned [OF returned(8)]
    show ?thesis
      by (intro succeeded [of before prs]) simp_all
  qed
qed


lemmas run_simps =
  process_ocr_def process_ocr_try_def start_transkribus_jobs_def
  transkribus_login_def start_recognition_process_def checked_json_def
  poll_transkribus_jobs_def poll_page_def
  check_process_status_with_retry_def raise_for_status_def ok_response_def emit_def
  get_process_result_def set_field_def extend_results_def merge_page_results_def
  mllm_futures_def MAX_MLLM_WORKERS_def bearer_headers_def initial_ocr_record_def
  Let_def lit_def enumerate_eq_zip upt_rec

lemma two_pages_job:
  "map_option (\<lambda>s. (job s ''error'', job s ''results''))
     (process_ocr (Suc (Suc (Suc 0))) [1, 0] net_two_pages cfg0 two_images 7 (lit ''gpt-5.2'') 0
        (lit ''RA'') ocr_state0)
   = Some (None, Some (PyResults
       [\<lparr>page = 0, mllm_merged_result = lit ''merged of a'',
         ocr_engine_result = Some (lit ''htr of job-a''), mllm_only_result = lit ''mllm of a''\<rparr>,
        \<lparr>page = 1, mllm_merged_result = lit ''merged of b'',
         ocr_engine_result = Some (lit ''htr of job-b''), mllm_only_result = lit ''mllm of b''\<rparr>]))"
  by (simp add: run_simps net_two_pages_def two_images_def cfg0_def ocr_state0_def)


section \<open>The writes after an error, and the moment the results appear\<close>

lemma after_error_quiet: "list_all quiet before \<Longrightarrow> after_error (before @ evs) = after_error evs"
proof (induction before)
  case Nil
  show ?case by simp
next
  case (Cons e before)
  then show ?case by (cases e) auto
qed

lemma process_tei_events:
  "\<exists>evs. hist (process_tei nt mp model images txt prompt custom temp mode st) = hist st @ evs
         \<and> (after_error evs = None
            \<or> after_error evs = Some [SetField ''tei_status'' (PyStr (lit ''ERROR''))])"
proof (cases "\<not> mp \<and> images = []")
  case True
  then show ?thesis
    by (simp add: process_tei_def process_tei_try_def set_field_def Let_def)
next
  case False
  show ?thesis
  proof (cases "tei_from_mllm nt (hist st @ [SetField ''status'' (PyStr (lit ''TEI-XML wird generiert...''))])
                  model (if mp then images else [hd images]) mp txt prompt custom temp mode")
    case (Inl e)
    with False show ?thesis
      by (simp add: process_tei_def process_tei_try_def set_field_def emit_def Let_def)
  next
    case (Inr answer)
    with False show ?thesis
      by (simp add: process_tei_def process_tei_try_def set_field_def emit_def Let_def)
  qed
qed

text \<open>
  C3 as stated: once \<open>error\<close> is set, nothing else in the record would be written. In the
  annotation job whose MLLM call fails, the write to \<open>error\<close> is followed by a write to
  \<open>tei_status\<close>.
\<close>

theorem tei_status_written_after_error:
  "after_error tei_failure_history = Some [SetField ''tei_status'' (PyStr (lit ''ERROR''))]"
  by (simp add: tei_failure_history_def process_tei_def process_tei_try_def net_tei_fails_def
      net_two_pages_def tei_state0_def set_field_def emit_def Let_def)

text \<open>
  C3, amended: in a recognition job the write that sets \<open>error\<close> is the last event of the
  job, so no field of the record is written after it; in an annotation job the write that
  sets \<open>error\<close> is followed by exactly one more event, the write of \<open>"ERROR"\<close> to
  \<open>tei_status\<close>, and by nothing else.
\<close>

theorem error_write_is_last:
  "(process_ocr fuel completion nt cfg images tm model temp mode st = Some st' \<longrightarrow>
      (\<exists>evs. hist st' = hist st @ evs \<and> (after_error evs = None \<or> after_error evs = Some [])))
   \<and> (\<exists>evs. hist (process_tei nt mp model images txt prompt custom temp mode st2) = hist st2 @ evs
          \<and> (after_error evs = None
             \<or> after_error evs = Some [SetField ''tei_status'' (PyStr (lit ''ERROR''))]))"
proof (intro conjI impI)
  assume run: "process_ocr fuel completion nt cfg images tm model temp mode st = Some st'"
  then show "\<exists>evs. hist st' = hist st @ evs \<and> (after_error evs = None \<or> after_error evs = Some [])"
  proof (cases rule: process_ocr_events)
    case (failed before e)
    then show ?thesis by (auto simp: steps_def after_error_quiet)
  next
    case (succeeded before prs)
    then show ?thesis by (auto simp: steps_def after_error_quiet)
  qed
next
  show "\<exists>evs. hist (process_tei nt mp model images txt prompt custom temp mode st2) = hist st2 @ evs
          \<and> (after_error evs = None
             \<or> after_error evs = Some [SetField ''tei_status'' (PyStr (lit ''ERROR''))])"
    by (rule process_tei_events)
qed

lemma ocr_failure_run:
  "map_option (\<lambda>s. (job s ''error'', after_error (hist s))) ocr_failure_state
     = Some (Some (PyStr (lit ''401 Client Error: Unauthorized'')), Some [])"
  by (simp add: ocr_failure_state_def run_simps net_always_401_def unauthorized_def cfg0_def)

theorem error_write_is_last_witness:
  "\<exists>st'. process_ocr (Suc 0) [0] net_always_401 cfg0 [lit ''a''] 7 (lit ''gpt-5.2'') 0 (lit ''RA'')
            \<lparr>job = initial_ocr_record 1 0, hist = []\<rparr> = Some st'
         \<and> job st' ''error'' = Some (PyStr (lit ''401 Client Error: Unauthorized''))
         \<and> after_error (hist st') = Some []"
proof -
  from ocr_failure_run obtain st' where
    run: "process_ocr (Suc 0) [0] net_always_401 cfg0 [lit ''a''] 7 (lit ''gpt-5.2'') 0 (lit ''RA'')
            \<lparr>job = initial_ocr_record 1 0, hist = []\<rparr> = Some st'"
    and err: "job st' ''error'' = Some (PyStr (lit ''401 Client Error: Unauthorized''))"
    and last: "after_error (hist st') = Some []"
    by (cases ocr_failure_state) (auto simp: ocr_failure_state_def)
  from error_write_is_last [THEN conjunct1, rule_format, OF run] last
  have "after_error (hist st') = Some []" by simp
  with run err show ?thesis by blast
qed

lemma status_data_results: "status_data data ''results'' = data ''results''"
  by (simp add: status_data_def)

lemma quiet_take: "list_all quiet evs \<Longrightarrow> list_all quiet (take k evs)"
  by (auto simp: list_all_iff dest: in_set_takeD)

text \<open>
  C5 as stated: a status query issued while the job is running would return the results of
  the pages completed so far. In the two-page job, after the first page's HTR result has
  been recorded (event 8), and also after the first page has been merged (event 17), the
  query still returns an empty \<open>results\<close> list.
\<close>

theorem results_empty_while_running:
  "two_pages_history ! 8 = SetField ''status'' (PyStr (finished_message 1 2))
   \<and> status_data (replay (take 9 two_pages_history) (job ocr_state0)) ''results''
       = Some (PyResults [])
   \<and> two_pages_history ! 17 = MergeCall 0
   \<and> status_data (replay (take 18 two_pages_history) (job ocr_state0)) ''results''
       = Some (PyResults [])"
  by (simp add: two_pages_history_def run_simps net_two_pages_def two_images_def cfg0_def
      ocr_state0_def status_data_def finished_message_def str_nat.simps)

text \<open>
  C5, amended: for a RECOGNITION job whose record starts with an empty \<open>results\<close> list,
  the events of the job are a run of events that only report progress, followed by the
  final writes. At every moment of that run a status query returns the empty \<open>results\<close>
  list. The final writes are either the two of the error handler, which leave \<open>results\<close>
  empty, or the single extension of \<open>results\<close> by the entries of all \<open>total_pages\<close> pages
  at once, followed by the three closing status writes.
\<close>

theorem results_published_at_once:
  assumes run: "process_ocr fuel completion nt cfg images tm model temp mode st = Some st'"
    and empty: "job st ''results'' = Some (PyResults [])"
  shows "\<exists>before final.
           hist st' = hist st @ before @ final
         \<and> list_all quiet before
         \<and> (\<forall>k \<le> length before.
               status_data (replay (take k (before @ final)) (job st)) ''results''
                 = Some (PyResults []))
         \<and> ((\<exists>e. final = [SetField ''status'' (PyStr (lit ''Fehler: '' @ e)),
                            SetField ''error'' (PyStr e)]
                  \<and> job st' ''results'' = Some (PyResults []))
            \<or> (\<exists>prs. final = [ExtendResults prs,
                                SetField ''status'' (PyStr (lit ''Verarbeitung abgeschlossen'')),
                                SetField ''transkribus_status'' (PyStr (lit ''FINISHED'')),
                                SetField ''mllm_status'' (PyStr (lit ''FINISHED''))]
                    \<and> length prs = length images
                    \<and> job st' ''results'' = Some (PyResults prs)))"
proof -
  have during: "status_data (replay (take k (before @ final)) (job st)) ''results''
                  = Some (PyResults [])"
    if "list_all quiet before" "k \<le> length before" for before final k
  proof -
    from that(2) have t: "take k (before @ final) = take k before" by simp
    have "replay (take k before) (job st) ''results'' = job st ''results''"
      by (rule replay_quiet_key [OF quiet_take [OF that(1)]]) simp_all
    then show ?thesis by (simp only: t status_data_results empty)
  qed
  from run show ?thesis
  proof (cases rule: process_ocr_events)
    case (failed before e)
    let ?final = "[SetField ''status'' (PyStr (lit ''Fehler: '' @ e)), SetField ''error'' (PyStr e)]"
    from failed(1) have h: "hist st' = hist st @ before @ ?final"
      and j: "job st' = replay ?final (replay before (job st))"
      by (simp_all add: steps_def replay_append)
    have "replay before (job st) ''results'' = Some (PyResults [])"
      using replay_quiet_key [OF failed(2), of "''results''" "job st"] empty by simp
    with j have "job st' ''results'' = Some (PyResults [])" by simp
    with h failed(2) during [OF failed(2)] show ?thesis
      by (intro exI [of _ before] exI [of _ ?final]) simp
  next
    case (succeeded before prs)
    let ?final = "[ExtendResults prs,
        SetField ''status'' (PyStr (lit ''Verarbeitung abgeschlossen'')),
        SetField ''transkribus_status'' (PyStr (lit ''FINISHED'')),
        SetField ''mllm_status'' (PyStr (lit ''FINISHED''))]"
    from succeeded(1) have h: "hist st' = hist st @ before @ ?final"
      and j: "job st' = replay ?final (replay before (job st))"
      by (simp_all add: steps_def replay_append)
    have "replay before (job st) ''results'' = Some (PyResults [])"
      using replay_quiet_key [OF succeeded(2), of "''results''" "job st"] empty by simp
    with j have "job st' ''results'' = Some (PyResults prs)" by simp
    with h succeeded(2,3) during [OF succeeded(2)] show ?thesis
      by (intro exI [of _ before] exI [of _ ?final]) simp
  qed
qed

theorem results_published_at_once_witness:
  "\<exists>st'. process_ocr (Suc (Suc (Suc 0))) [1, 0] net_two_pages cfg0 two_images 7 (lit ''gpt-5.2'') 0
            (lit ''RA'') ocr_state0 = Some st'
         \<and> job ocr_state0 ''results'' = Some (PyResults [])
         \<and> (\<exists>before final. hist st' = hist ocr_state0 @ before @ final \<and> list_all quiet before
               \<and> (\<exists>prs. hd final = ExtendResults prs \<and> length prs = length two_images))"
proof -
  let ?run = "process_ocr (Suc (Suc (Suc 0))) [1, 0] net_two_pages cfg0 two_images 7
      (lit ''gpt-5.2'') 0 (lit ''RA'') ocr_state0"
  from two_pages_job obtain st' where run: "?run = Some st'"
    and rs: "job st' ''results'' \<noteq> Some (PyResults [])"
    by (cases ?run) auto
  have empty: "job ocr_state0 ''results'' = Some (PyResults [])"
    by (simp add: ocr_state0_def initial_ocr_record_def)
  from results_published_at_once [OF run empty] rs obtain before final prs where
    "hist st' = hist ocr_state0 @ before @ final" "list_all quiet before"
    "final = [ExtendResults prs,
              SetField ''status'' (PyStr (lit ''Verarbeitung abgeschlossen'')),
              SetField ''transkribus_status'' (PyStr (lit ''FINISHED'')),
              SetField ''mllm_status'' (PyStr (lit ''FINISHED''))]"
    "length prs = length two_images"
    by auto
  then have "hist st' = hist ocr_state0 @ before @ final \<and> list_all quiet before
      \<and> (\<exists>prs. hd final = ExtendResults prs \<and> length prs = length two_images)"
    by simp
  with run empty show ?thesis by blast
qed

section \<open>Properties of the submission entry points\<close>










lemma collect_images_POST:
  "collect_images ev (r\<lparr>POST := p\<rparr>) idxs acc = collect_images ev r idxs acc"
  by (induction idxs arbitrary: acc) simp_all

lemma create_tei_default_mode:
  assumes "POST r ''mode'' = None"
  shows "create_tei ev now_sweep now_created r srv
           = create_tei ev now_sweep now_created (r\<lparr>POST := (POST r)(''mode'' \<mapsto> lit ''RA'')\<rparr>) srv"
  using assms
  by (simp add: create_tei_def collect_images_POST Let_def
      cong: option.case_cong if_cong sum.case_cong)

lemma create_tei_invalid_mode:
  assumes "POST r ''mode'' = Some m" and "m \<notin> VALID_MODES"
  shows "\<exists>msg code. create_tei ev now_sweep now_created r srv
                      = (Inr (JsonResponse [(''error'', msg)] code), srv, None)"
  using assms by (auto simp: create_tei_def error_response_def Let_def split: option.splits)

lemma create_tei_accepts_without_mode:
  assumes "POST r ''mode'' = None" and "passes_tei_checks ev r"
    and "POST r ''num_pages'' = None" and "FILES r ''image'' \<noteq> []"
    and "cleanup_old_entries now_sweep (process_status_store srv) = Inr swept"
  shows "\<exists>model images txt prompt custom temp.
           create_tei ev now_sweep now_created r srv
             = (Inr (JsonResponse [(''process_id'', map of_char (uuid4 ev (uuids_drawn srv)))] 200),
                \<lparr>process_status_store =
                   AList.update (uuid4 ev (uuids_drawn srv)) (initial_tei_record now_created) swept,
                 uuids_drawn = Suc (uuids_drawn srv)\<rparr>,
                Some (TeiThread (uuid4 ev (uuids_drawn srv)) False model images txt prompt custom
                        temp (lit ''RA'')))"
  using assms
  by (auto simp: create_tei_def passes_tei_checks_def start_job_def Let_def VALID_MODES_def
      split: option.splits)

lemma upload_image_rejects_without_mode:
  assumes "POST r ''mode'' = None"
  shows "\<exists>msg. upload_image ev now_sweep now_created r srv
                 = (Inr (JsonResponse [(''error'', msg)] 400), srv, None)"
  using assms
  by (auto simp: upload_image_def error_response_def not_in_def Let_def split: option.splits)

lemma upload_image_mode_message:
  assumes "POST r ''mode'' = None" and "passes_ocr_checks ev r"
  shows "upload_image ev now_sweep now_created r srv
           = (Inr (JsonResponse [(''error'', lit ''Ung'' @ [252] @ lit ''ltiger Modus: None'')] 400),
              srv, None)"
  using assms
  by (auto simp: upload_image_def passes_ocr_checks_def error_response_def not_in_def fmt_def
      Let_def lit_def split: option.splits)

text \<open>
  C10. The two entry points treat a missing \<open>mode\<close> field differently. \<open>create_tei\<close>
  answers a request without \<open>mode\<close> exactly as it answers the same request with the mode
  \<open>RA\<close>; when such a single-page request passes the other checks, the job is created and
  its thread runs with the mode \<open>RA\<close>. It rejects a request whose \<open>mode\<close> is given and is
  neither \<open>RA\<close> nor \<open>GL\<close>. \<open>upload_image\<close> rejects every request without \<open>mode\<close> with status
  400 and leaves the server as it was; when the request passes the checks that come before
  the mode, the error is the one about the mode.
\<close>

theorem mode_checked_asymmetrically:
  "(POST r ''mode'' = None \<longrightarrow>
      create_tei ev now_sweep now_created r srv
        = create_tei ev now_sweep now_created (r\<lparr>POST := (POST r)(''mode'' \<mapsto> lit ''RA'')\<rparr>) srv)
   \<and> (POST r ''mode'' = None \<and> passes_tei_checks ev r \<and> POST r ''num_pages'' = None
        \<and> FILES r ''image'' \<noteq> []
        \<and> cleanup_old_entries now_sweep (process_status_store srv) = Inr swept \<longrightarrow>
      (\<exists>model images txt prompt custom temp.
         create_tei ev now_sweep now_created r srv
           = (Inr (JsonResponse [(''process_id'', map of_char (uuid4 ev (uuids_drawn srv)))] 200),
              \<lparr>process_status_store =
                 AList.update (uuid4 ev (uuids_drawn srv)) (initial_tei_record now_created) swept,
               uuids_drawn = Suc (uuids_drawn srv)\<rparr>,
              Some (TeiThread (uuid4 ev (uuids_drawn srv)) False model images txt prompt custom
                      temp (lit ''RA'')))))
   \<and> (\<forall>m. POST r ''mode'' = Some m \<and> m \<notin> VALID_MODES \<longrightarrow>
         (\<exists>msg code. create_tei ev now_sweep now_created r srv
                        = (Inr (JsonResponse [(''error'', msg)] code), srv, None)))
   \<and> (POST r ''mode'' = None \<longrightarrow>
         (\<exists>msg. upload_image ev now_sweep now_created r srv
                   = (Inr (JsonResponse [(''error'', msg)] 400), srv, None)))
   \<and> (POST r ''mode'' = None \<and> passes_ocr_checks ev r \<longrightarrow>
         upload_image ev now_sweep now_created r srv
           = (Inr (JsonResponse [(''error'', lit ''Ung'' @ [252] @ lit ''ltiger Modus: None'')] 400),
              srv, None))"
  using create_tei_default_mode [of r ev now_sweep now_created srv]
    create_tei_accepts_without_mode [of r ev now_sweep srv swept now_created]
    create_tei_invalid_mode [of r _ ev now_sweep now_created srv]
    upload_image_rejects_without_mode [of r ev now_sweep now_created srv]
    upload_image_mode_message [of r ev now_sweep now_created srv]
  by blast

theorem mode_checked_asymmetrically_witness:
  "POST tei_request_no_mode ''mode'' = None
   \<and> passes_tei_checks env0 tei_request_no_mode
   \<and> cleanup_old_entries 0 (process_status_store server0) = Inr store_one_job
   \<and> (\<exists>model images txt prompt custom temp.
         create_tei env0 0 0 tei_request_no_mode server0
           = (Inr (JsonResponse [(''process_id'', map of_char (uuid4 env0 0))] 200),
              \<lparr>process_status_store =
                 AList.update (uuid4 env0 0) (initial_tei_record 0) store_one_job,
               uuids_drawn = Suc 0\<rparr>,
              Some (TeiThread (uuid4 env0 0) False model images txt prompt custom temp
                      (lit ''RA''))))
   \<and> POST ocr_request_no_mode ''mode'' = None
   \<and> passes_ocr_checks env0 ocr_request_no_mode
   \<and> upload_image env0 0 0 ocr_request_no_mode server0
       = (Inr (JsonResponse [(''error'', lit ''Ung'' @ [252] @ lit ''ltiger Modus: None'')] 400),
          server0, None)"
proof -
  have t1: "POST tei_request_no_mode ''mode'' = None"
    and t2: "POST tei_request_no_mode ''num_pages'' = None"
    and t3: "FILES tei_request_no_mode ''image'' \<noteq> []"
    by (simp_all add: tei_request_no_mode_def)
  have t4: "passes_tei_checks env0 tei_request_no_mode"
    by (simp add: passes_tei_checks_def tei_request_no_mode_def env0_def not_in_def
        VALID_MODELS_def VALID_PROMPTS_def VALID_MODES_def temperature_in_range_def lit_def)
  have t5: "cleanup_old_entries 0 (process_status_store server0) = Inr store_one_job"
    by (simp add: server0_def cleanup_old_entries_def store_one_job_def job_at_0_def
        created_before_def PROCESS_ENTRY_TTL_def)
  have u0: "uuids_drawn server0 = 0" by (simp add: server0_def)
  have o1: "POST ocr_request_no_mode ''mode'' = None"
    by (simp add: ocr_request_no_mode_def)
  have o2: "passes_ocr_checks env0 ocr_request_no_mode"
    by (simp add: passes_ocr_checks_def ocr_request_no_mode_def env0_def not_in_def
        VALID_MODELS_def MAX_PAGES_def temperature_in_range_def lit_def)
  note tei = mode_checked_asymmetrically [where r = tei_request_no_mode and ev = env0
      and now_sweep = 0 and now_created = 0 and srv = server0 and swept = store_one_job]
  note ocr = mode_checked_asymmetrically [where r = ocr_request_no_mode and ev = env0
      and now_sweep = 0 and now_created = 0 and srv = server0 and swept = store_one_job]
  from tei t1 t2 t3 t4 t5 have
    "\<exists>model images txt prompt custom temp.
         create_tei env0 0 0 tei_request_no_mode server0
           = (Inr (JsonResponse [(''process_id'', map of_char (uuid4 env0 (uuids_drawn server0)))] 200),
              \<lparr>process_status_store =
                 AList.update (uuid4 env0 (uuids_drawn server0)) (initial_tei_record 0) store_one_job,
               uuids_drawn = Suc (uuids_drawn server0)\<rparr>,
              Some (TeiThread (uuid4 env0 (uuids_drawn server0)) False model images txt prompt
                      custom temp (lit ''RA'')))"
    by blast
  then have accepted: "\<exists>model images txt prompt custom temp.
         create_tei env0 0 0 tei_request_no_mode server0
           = (Inr (JsonResponse [(''process_id'', map of_char (uuid4 env0 0))] 200),
              \<lparr>process_status_store =
                 AList.update (uuid4 env0 0) (initial_tei_record 0) store_one_job,
               uuids_drawn = Suc 0\<rparr>,
              Some (TeiThread (uuid4 env0 0) False model images txt prompt custom temp
                      (lit ''RA'')))"
    by (simp only: u0)
  from ocr o1 o2 have rejected: "upload_image env0 0 0 ocr_request_no_mode server0
       = (Inr (JsonResponse [(''error'', lit ''Ung'' @ [252] @ lit ''ltiger Modus: None'')] 400),
          server0, None)"
    by blast
  from t1 t4 t5 accepted o1 o2 rejected show ?thesis by blast
qed

end
